theory Spec2Isabelle
  imports Main "HOL-Library.Sublist"
begin

section \<open>JavaScript strings\<close>

text \<open>
  A JavaScript string is a sequence of UTF-16 code units. A code unit is modelled as a
  natural number (a real one is below 65536) and a string as the list of its code units,
  so \<open>length\<close> is \<open>.length\<close> and \<open>s ! i\<close> is \<open>s[i]\<close> for \<open>i < length s\<close>.
  \<open>asc\<close> turns an ASCII literal into such a list; every other letter is written by its
  code unit, for example \<open>0x430\<close> for the Cyrillic small letter a.
\<close>

type_synonym jsstring = "nat list"

definition asc :: "string \<Rightarrow> jsstring" where
  "asc s = map of_char s"

definition isHighSurrogate :: "nat \<Rightarrow> bool" where
  "isHighSurrogate u = (0xD800 \<le> u \<and> u \<le> 0xDBFF)"

definition isLowSurrogate :: "nat \<Rightarrow> bool" where
  "isLowSurrogate u = (0xDC00 \<le> u \<and> u \<le> 0xDFFF)"

text \<open>
  \<open>for (const char of text)\<close> walks the string by code points: a high surrogate followed
  by a low surrogate is one \<open>char\<close> of two code units, every other code unit is a \<open>char\<close>
  of its own.
\<close>

fun codePoints :: "jsstring \<Rightarrow> jsstring list" where
  "codePoints [] = []"
| "codePoints [u] = [[u]]"
| "codePoints (u # v # rest) =
     (if isHighSurrogate u \<and> isLowSurrogate v then [u, v] # codePoints rest
      else [u] # codePoints (v # rest))"

section \<open>The tables of the class\<close>

definition cyrillic2LatinMap_entries :: "(jsstring \<times> jsstring) list" where
  "cyrillic2LatinMap_entries =
  [([0x430], asc ''a''), ([0x431], asc ''b''), ([0x432], asc ''v''), ([0x433], asc ''g''),
   ([0x434], asc ''d''), ([0x452], [0x111]), ([0x435], asc ''e''), ([0x436], [0x17E]),
   ([0x437], asc ''z''), ([0x438], asc ''i''), ([0x458], asc ''j''), ([0x43A], asc ''k''),
   ([0x43B], asc ''l''), ([0x459], asc ''lj''), ([0x43C], asc ''m''), ([0x43D], asc ''n''),
   ([0x45A], asc ''nj''), ([0x43E], asc ''o''), ([0x43F], asc ''p''), ([0x440], asc ''r''),
   ([0x441], asc ''s''), ([0x442], asc ''t''), ([0x45B], [0x107]), ([0x443], asc ''u''),
   ([0x444], asc ''f''), ([0x445], asc ''h''), ([0x446], asc ''c''), ([0x447], [0x10D]),
   ([0x45F], asc ''d'' @ [0x17E]), ([0x448], [0x161]), ([0x410], asc ''A''),
   ([0x411], asc ''B''), ([0x412], asc ''V''), ([0x413], asc ''G''), ([0x414], asc ''D''),
   ([0x402], [0x110]), ([0x415], asc ''E''), ([0x416], [0x17D]), ([0x417], asc ''Z''),
   ([0x418], asc ''I''), ([0x408], asc ''J''), ([0x41A], asc ''K''), ([0x41B], asc ''L''),
   ([0x409], asc ''Lj''), ([0x41C], asc ''M''), ([0x41D], asc ''N''), ([0x40A], asc ''Nj''),
   ([0x41E], asc ''O''), ([0x41F], asc ''P''), ([0x420], asc ''R''), ([0x421], asc ''S''),
   ([0x422], asc ''T''), ([0x40B], [0x106]), ([0x423], asc ''U''), ([0x424], asc ''F''),
   ([0x425], asc ''H''), ([0x426], asc ''C''), ([0x427], [0x10C]),
   ([0x40F], asc ''D'' @ [0x17E]), ([0x428], [0x160])]"

definition latin2CyrillicMap_entries :: "(jsstring \<times> jsstring) list" where
  "latin2CyrillicMap_entries =
  [(asc ''a'', [0x430]), (asc ''b'', [0x431]), (asc ''v'', [0x432]), (asc ''g'', [0x433]),
   (asc ''d'', [0x434]), ([0x111], [0x452]), (asc ''e'', [0x435]), ([0x17E], [0x436]),
   (asc ''z'', [0x437]), (asc ''i'', [0x438]), (asc ''j'', [0x458]), (asc ''k'', [0x43A]),
   (asc ''l'', [0x43B]), (asc ''m'', [0x43C]), (asc ''n'', [0x43D]), (asc ''o'', [0x43E]),
   (asc ''p'', [0x43F]), (asc ''r'', [0x440]), (asc ''s'', [0x441]), (asc ''t'', [0x442]),
   ([0x107], [0x45B]), (asc ''u'', [0x443]), (asc ''f'', [0x444]), (asc ''h'', [0x445]),
   (asc ''c'', [0x446]), ([0x10D], [0x447]), ([0x161], [0x448]), (asc ''A'', [0x410]),
   (asc ''B'', [0x411]), (asc ''V'', [0x412]), (asc ''G'', [0x413]), (asc ''D'', [0x414]),
   ([0x110], [0x402]), (asc ''E'', [0x415]), ([0x17D], [0x416]), (asc ''Z'', [0x417]),
   (asc ''I'', [0x418]), (asc ''J'', [0x408]), (asc ''K'', [0x41A]), (asc ''L'', [0x41B]),
   (asc ''M'', [0x41C]), (asc ''N'', [0x41D]), (asc ''O'', [0x41E]), (asc ''P'', [0x41F]),
   (asc ''R'', [0x420]), (asc ''S'', [0x421]), (asc ''T'', [0x422]), ([0x106], [0x40B]),
   (asc ''U'', [0x423]), (asc ''F'', [0x424]), (asc ''H'', [0x425]), (asc ''C'', [0x426]),
   ([0x10C], [0x427]), ([0x160], [0x428])]"

definition digraphRegexps :: "(jsstring \<times> jsstring) list" where
  "digraphRegexps =
  [(asc ''Lj'', [0x409]), (asc ''Nj'', [0x40A]), (asc ''D'' @ [0x17E], [0x40F]),
   (asc ''lj'', [0x459]), (asc ''nj'', [0x45A]), (asc ''d'' @ [0x17E], [0x45F])]"

definition exceptionPatterns_dj :: "jsstring list" where
  "exceptionPatterns_dj =
  [asc ''adjektiv'', asc ''adjunkt'', asc ''bazdje'', asc ''bdje'', asc ''bezdje'',
   asc ''blijedje'', asc ''bludje'', asc ''bridj'' @ [0x435], asc ''vidjel'', asc ''vidjet'',
   asc ''vindjakn'', asc ''vi'' @ [0x161] @ asc ''enedje'', asc ''vrijedje'', asc ''gdje'',
   asc ''gudje'', asc ''gdjir'', asc ''da'' @ [0x17E] @ asc ''dje'', asc ''dvonedje'',
   asc ''devetonedje'', asc ''desetonedje'', asc ''djb'', asc ''djeva'', asc ''djevi'',
   asc ''djevo'', asc ''djed'', asc ''djejstv'', asc ''djel'', asc ''djenem'',
   asc ''djene'' @ [0x161], asc ''djenu'', asc ''djet'', asc ''djec'', asc ''dje'' @ [0x10D],
   asc ''djuar'', asc ''djubison'', asc ''djubouz'', asc ''djuer'', asc ''djui'',
   asc ''djuks'', asc ''djulej'', asc ''djumars'', asc ''djupont'', asc ''djurant'',
   asc ''djusenberi'', asc ''djuharst'', asc ''djuherst'', asc ''dovdje'', asc ''dogrdje'',
   asc ''dodjel'', asc ''drvodje'', asc ''drugdje'', asc ''elektrosnabdje'',
   [0x17E] @ asc ''udje'', asc ''zabludje'', asc ''zavidje'', asc ''zavrijedje'',
   asc ''zagudje'', asc ''zadjev'', asc ''zadjen'', asc ''zalebdje'', asc ''zaludje'',
   asc ''zaodje'', asc ''zapodje'', asc ''zarudje'', asc ''zasjedje'', asc ''zasmrdje'',
   asc ''zastidje'', asc ''za'' @ [0x161] @ asc ''tedje'', asc ''zdje'', asc ''zlodje'',
   asc ''igdje'', asc ''izbledje'', asc ''izblijedje'', asc ''izvidje'', asc ''izdjejst'',
   asc ''izdjelj'', asc ''izludje'', asc ''isprdje'', asc ''jednonedje'', asc ''kojegdje'',
   asc ''kudjelj'', asc ''lebdje'', asc ''ludjel'', asc ''ludjet'', asc ''makfadjen'',
   asc ''marmadjuk'', asc ''me'' @ [0x111] @ asc ''udjel'', asc ''nadjaha'',
   asc ''nadja'' @ [0x10D] @ asc ''a'', asc ''nadjeb'', asc ''nadjev'', asc ''nadjenul'',
   asc ''nadjenuo'', asc ''nadjenut'', asc ''negdje'', asc ''nedjel'',
   asc ''nadjuna'' @ [0x10D], asc ''nenadja'' @ [0x10D] @ asc ''a'', asc ''nenavidje'',
   asc ''neodje'', asc ''nepodjarm'', asc ''nerazdje'', asc ''nigdje'', asc ''obdjel'',
   asc ''obnevidje'', asc ''ovdje'', asc ''odjav'', asc ''odjah'', asc ''odja'' @ [0x161],
   asc ''odjeb'', asc ''odjev'', asc ''odjed'', asc ''odjezd'', asc ''odjek'', asc ''odjel'',
   asc ''odjen'', asc ''odje'' @ [0x107], asc ''odjec'', asc ''odjur'', asc ''odsjedje'',
   asc ''ondje'', asc ''opredje'', asc ''osijedje'', asc ''osmonedje'', asc ''pardju'',
   asc ''perdju'', asc ''petonedje'', asc ''poblijedje'', asc ''povidje'', asc ''pogdjegdje'',
   asc ''pogdje'', asc ''podjakn'', asc ''podjam'' @ [0x10D], asc ''podjem'' @ [0x10D],
   asc ''podjar'', asc ''podjeb'', asc ''podjebrad'', asc ''podjed'',
   asc ''podjezi'' @ [0x10D], asc ''podjel'', asc ''podjen'', asc ''podjet'', asc ''pododjel'',
   asc ''pozavidje'', asc ''poludje'', asc ''poljodjel'', asc ''ponegdje'', asc ''ponedjelj'',
   asc ''porazdje'', asc ''posijedje'', asc ''posjedje'', asc ''postidje'', asc ''potpodjel'',
   asc ''po'' @ [0x161] @ asc ''tedje'', asc ''pradjed'', asc ''prdje'', asc ''preblijedje'',
   asc ''previdje'', asc ''predvidje'', asc ''predjel'', asc ''preodjen'', asc ''preraspodje'',
   asc ''presjedje'', asc ''pridjev'', asc ''pridjen'', asc ''prismrdje'',
   asc ''pri'' @ [0x161] @ asc ''tedje'', asc ''probdje'', asc ''problijedje'',
   asc ''prodjen'', asc ''prolebdje'', asc ''prosijedje'', asc ''prosjedje'',
   asc ''protivdjel'', asc ''pro'' @ [0x161] @ asc ''lonedje'', asc ''razvidje'',
   asc ''razdjev'', asc ''razdjel'', asc ''razodje'', asc ''raspodje'', asc ''rasprdje'',
   asc ''remekdjel'', asc ''rudjen'', asc ''rudjet'', asc ''sadje'', asc ''svagdje'',
   asc ''svidje'', asc ''svugdje'', asc ''sedmonedjelj'', asc ''sijedje'', asc ''sjedje'',
   asc ''smrdje'', asc ''snabdje'', asc ''snovidje'', asc ''starosjedje'', asc ''stidje'',
   asc ''studje'', asc ''sudjel'', asc ''tronedje'', asc ''ublijedje'', asc ''uvidje'',
   asc ''udjel'', asc ''udjen'', asc ''uprdje'', asc ''usidjel'', asc ''usjedje'',
   asc ''usmrdje'', asc ''u'' @ [0x161] @ asc ''tedje'', asc ''cjelonedje'',
   [0x10D] @ asc ''etvoronedje'', [0x10D] @ asc ''ukundjed'', [0x161] @ asc ''estonedjelj'',
   [0x161] @ asc ''tedje'', [0x161] @ asc ''togdje'', [0x161] @ asc ''ukundjed'']"

definition exceptionPatterns_dzh :: "jsstring list" where
  "exceptionPatterns_dzh =
  [asc ''feld'' @ [0x17E] @ asc ''andarm'', asc ''nad'' @ [0x17E] @ asc ''anj'',
   asc ''nad'' @ [0x17E] @ asc ''drel'', asc ''nad'' @ [0x17E] @ asc ''el'',
   asc ''nad'' @ [0x17E] @ asc ''eo'', asc ''nad'' @ [0x17E] @ asc ''et'',
   asc ''nad'' @ [0x17E] @ asc ''iv'', asc ''nad'' @ [0x17E] @ asc ''inj'',
   asc ''nad'' @ [0x17E] @ asc ''nj'', asc ''nad'' @ [0x17E] @ asc ''rec'',
   asc ''nad'' @ [0x17E] @ asc ''up'', asc ''od'' @ [0x17E] @ asc ''ali'',
   asc ''od'' @ [0x17E] @ asc ''ari'', asc ''od'' @ [0x17E] @ asc ''el'',
   asc ''od'' @ [0x17E] @ asc ''ive'', asc ''od'' @ [0x17E] @ asc ''ivljava'',
   asc ''od'' @ [0x17E] @ asc ''ubor'', asc ''od'' @ [0x17E] @ asc ''vaka'',
   asc ''od'' @ [0x17E] @ asc ''val'', asc ''od'' @ [0x17E] @ asc ''va'' @ [0x107],
   asc ''pod'' @ [0x17E] @ asc ''anr'', asc ''pod'' @ [0x17E] @ asc ''el'',
   asc ''pod'' @ [0x17E] @ asc ''e'', asc ''pod'' @ [0x17E] @ asc ''ig'',
   asc ''pod'' @ [0x17E] @ asc ''iz'', asc ''pod'' @ [0x17E] @ asc ''il'',
   asc ''pod'' @ [0x17E] @ asc ''nje'', asc ''pod'' @ [0x17E] @ asc ''upan'',
   asc ''pred'' @ [0x17E] @ asc ''elu'', asc ''pred'' @ [0x17E] @ asc ''ivot'']"

definition exceptionPatterns_nj :: "jsstring list" where
  "exceptionPatterns_nj =
  [asc ''anjon'', asc ''injaric'', asc ''injekc'', asc ''injekt'', asc ''injicira'',
   asc ''injurij'', asc ''kenjon'', asc ''konjug'', asc ''konjunk'', asc ''nekonjug'',
   asc ''nekonjunk'', asc ''ssrnj'', asc ''tanjug'', asc ''vanjezi'' @ [0x10D] @ asc ''k'']"

text \<open>
  An object literal indexed by a one-character string: the lookup \<open>map[char]\<close> is
  \<open>undefined\<close> (\<open>None\<close>) for every string that is not a key.
\<close>

definition cyrillic2LatinMap :: "jsstring \<rightharpoonup> jsstring" where
  "cyrillic2LatinMap = map_of cyrillic2LatinMap_entries"

definition latin2CyrillicMap :: "jsstring \<rightharpoonup> jsstring" where
  "latin2CyrillicMap = map_of latin2CyrillicMap_entries"

text \<open>
  \<open>digraphExceptionPatterns\<close>, in the order \<open>Object.entries\<close> walks it: the digraph key
  and its patterns. Every pattern is a literal text with the flags \<open>gi\<close>.
\<close>

definition digraphExceptionPatterns :: "(jsstring \<times> jsstring list) list" where
  "digraphExceptionPatterns =
     [(asc ''dj'', exceptionPatterns_dj),
      (asc ''d'' @ [0x17E], exceptionPatterns_dzh),
      (asc ''nj'', exceptionPatterns_nj)]"

definition ZWNJ :: jsstring where
  "ZWNJ = [0x200C]"

definition SKIP_PREFIX :: jsstring where
  "SKIP_PREFIX = [0xE000] @ asc ''__SKIP__''"

record toCyrillicSkipOptions =
  caseSensitive :: "bool option"
  words :: "jsstring list option"
  markers :: "jsstring list option"

record toCyrillicOptions =
  skip :: "toCyrillicSkipOptions option"

record letterCount =
  cyrillic :: nat
  latin :: nat

text \<open>
  \<open>default2CyrillicOptions\<close>; \<open>defaultSkip\<close> is its field \<open>skip\<close>, which the source reads as
  \<open>this.default2CyrillicOptions.skip!\<close>.
\<close>

definition defaultSkip :: toCyrillicSkipOptions where
  "defaultSkip =
     \<lparr>caseSensitive = Some True, words = Some [],
      markers = Some [asc ''<skip>'', asc ''</skip>'']\<rparr>"

definition default2CyrillicOptions :: toCyrillicOptions where
  "default2CyrillicOptions = \<lparr>skip = Some defaultSkip\<rparr>"

datatype error = IdenticalMarkers

section \<open>The string and regular-expression operations of the host language\<close>

text \<open>
  The canonical form of a code unit under the flag \<open>i\<close>: its upper case. The case mapping
  is written out for Basic Latin, for the five Serbian Latin letters with a diacritic and
  for the rows \<open>0x430\<close> to \<open>0x45F\<close> of the Cyrillic block, which are the letters of the two
  tables and of the exception patterns; every other code unit is taken as its own
  canonical form.
\<close>

definition canonicalize :: "nat \<Rightarrow> nat" where
  "canonicalize c =
     (if 97 \<le> c \<and> c \<le> 122 then c - 32
      else if c = 0x107 \<or> c = 0x10D \<or> c = 0x111 \<or> c = 0x161 \<or> c = 0x17E then c - 1
      else if 0x430 \<le> c \<and> c \<le> 0x44F then c - 32
      else if 0x450 \<le> c \<and> c \<le> 0x45F then c - 80
      else c)"

definition sameChar :: "bool \<Rightarrow> nat \<Rightarrow> nat \<Rightarrow> bool" where
  "sameChar ignoreCase p c = (if ignoreCase then canonicalize p = canonicalize c else p = c)"

text \<open>A literal pattern matches at the head of the text.\<close>

fun matchLiteral :: "bool \<Rightarrow> jsstring \<Rightarrow> jsstring \<Rightarrow> bool" where
  "matchLiteral ignoreCase [] s = True"
| "matchLiteral ignoreCase (p # ps) [] = False"
| "matchLiteral ignoreCase (p # ps) (c # cs) =
     (sameChar ignoreCase p c \<and> matchLiteral ignoreCase ps cs)"

text \<open>
  \<open>s.replace(re, f)\<close> for a global regular expression \<open>re\<close> that is a literal text: the
  matches are taken from left to right without overlap, each is replaced by \<open>f match\<close>,
  and the search goes on behind the match. An empty pattern matches before every code
  unit and at the end.
\<close>

function replaceGlobal :: "bool \<Rightarrow> jsstring \<Rightarrow> (jsstring \<Rightarrow> jsstring) \<Rightarrow> jsstring \<Rightarrow> jsstring" where
  "replaceGlobal ignoreCase pat f [] = (if pat = [] then f [] else [])"
| "replaceGlobal ignoreCase pat f (c # cs) =
     (if matchLiteral ignoreCase pat (c # cs) then
        (if pat = [] then f [] @ c # replaceGlobal ignoreCase pat f cs
         else f (take (length pat) (c # cs))
              @ replaceGlobal ignoreCase pat f (drop (length pat) (c # cs)))
      else c # replaceGlobal ignoreCase pat f cs)"
  by pat_completeness auto
termination
  by (relation "measure (\<lambda>(ignoreCase, pat, f, s). length s)") auto

text \<open>\<open>s.indexOf(pat, from)\<close>, with \<open>None\<close> for the result \<open>-1\<close>.\<close>

fun indexOfFrom :: "jsstring \<Rightarrow> jsstring \<Rightarrow> nat \<Rightarrow> nat option" where
  "indexOfFrom pat [] k = (if pat = [] then Some k else None)"
| "indexOfFrom pat (c # cs) k =
     (if matchLiteral False pat (c # cs) then Some k else indexOfFrom pat cs (Suc k))"

definition indexOf :: "jsstring \<Rightarrow> jsstring \<Rightarrow> nat \<Rightarrow> nat option" where
  "indexOf pat s from = indexOfFrom pat (drop from s) (min from (length s))"

definition slice :: "jsstring \<Rightarrow> nat \<Rightarrow> nat \<Rightarrow> jsstring" where
  "slice s i j = take (j - i) (drop i s)"

text \<open>
  The expansion of a replacement text by \<open>s.replace(search, replacement)\<close> when \<open>search\<close>
  is a string (there are no capture groups): \<open>$$\<close> is a dollar sign, \<open>$&\<close> the matched
  text, \<open>$`\<close> the text before the match and \<open>$'\<close> the text behind it; any other dollar
  sign stands for itself.
\<close>

fun getSubstitution :: "jsstring \<Rightarrow> jsstring \<Rightarrow> jsstring \<Rightarrow> jsstring \<Rightarrow> jsstring" where
  "getSubstitution matched before after [] = []"
| "getSubstitution matched before after [c] = [c]"
| "getSubstitution matched before after (c # d # rest) =
     (if c = 36 \<and> d = 36 then 36 # getSubstitution matched before after rest
      else if c = 36 \<and> d = 38 then matched @ getSubstitution matched before after rest
      else if c = 36 \<and> d = 96 then before @ getSubstitution matched before after rest
      else if c = 36 \<and> d = 39 then after @ getSubstitution matched before after rest
      else c # getSubstitution matched before after (d # rest))"

text \<open>\<open>s.replace(search, replacement)\<close> for two strings: the first occurrence only.\<close>

definition replaceFirst :: "jsstring \<Rightarrow> jsstring \<Rightarrow> jsstring \<Rightarrow> jsstring" where
  "replaceFirst search replacement s =
     (case indexOf search s 0 of
        None \<Rightarrow> s
      | Some pos \<Rightarrow>
          take pos s
          @ getSubstitution search (take pos s) (drop (pos + length search) s) replacement
          @ drop (pos + length search) s)"

text \<open>The decimal text of an index, as a template literal prints it.\<close>

function showNat :: "nat \<Rightarrow> jsstring" where
  "showNat n = (if n < 10 then [48 + n] else showNat (n div 10) @ [48 + n mod 10])"
  by pat_completeness auto
termination
  by (relation "measure (\<lambda>n. n)") auto

declare showNat.simps [simp del]

text \<open>The class \<open>\w\<close> of a regular expression without the flag \<open>u\<close>: \<open>[A-Za-z0-9_]\<close>.\<close>

definition isWordChar :: "nat \<Rightarrow> bool" where
  "isWordChar c = ((65 \<le> c \<and> c \<le> 90) \<or> (97 \<le> c \<and> c \<le> 122) \<or> (48 \<le> c \<and> c \<le> 57) \<or> c = 95)"

text \<open>The code units that \<open>.\<close> does not match: the line terminators.\<close>

definition isLineTerminator :: "nat \<Rightarrow> bool" where
  "isLineTerminator c = (c = 10 \<or> c = 13 \<or> c = 0x2028 \<or> c = 0x2029)"

text \<open>
  The class \<open>[\p{L}\p{N}_]\<close>. The Unicode categories are written out for Basic Latin,
  Latin-1 Supplement, Latin Extended-A and the Cyrillic block; a code unit outside
  these blocks is taken as neither a letter nor a number.
\<close>

definition isLetterNumberUnderscore :: "nat \<Rightarrow> bool" where
  "isLetterNumberUnderscore c =
     (isWordChar c
      \<or> c = 0xAA \<or> c = 0xB2 \<or> c = 0xB3 \<or> c = 0xB5 \<or> c = 0xB9 \<or> c = 0xBA
      \<or> c = 0xBC \<or> c = 0xBD \<or> c = 0xBE
      \<or> (0xC0 \<le> c \<and> c \<le> 0x17F \<and> c \<noteq> 0xD7 \<and> c \<noteq> 0xF7)
      \<or> (0x400 \<le> c \<and> c \<le> 0x481)
      \<or> (0x48A \<le> c \<and> c \<le> 0x4FF))"

section \<open>The functions of the class\<close>

text \<open>
  The callback of \<open>handleDigraphExceptions\<close>: inside one match of an exception pattern,
  every occurrence of the digraph key itself (a regular expression with the flag \<open>g\<close>
  only, so in lower case) gets the separator between its two letters.
\<close>

definition guardDigraph :: "jsstring \<Rightarrow> jsstring \<Rightarrow> jsstring" where
  "guardDigraph digraph match =
     replaceGlobal False digraph (\<lambda>_. [digraph ! 0] @ ZWNJ @ [digraph ! 1]) match"

text \<open>The inner loop \<open>for (const pattern of exceptionPatterns)\<close>.\<close>

definition guardPatterns :: "jsstring \<Rightarrow> jsstring list \<Rightarrow> jsstring \<Rightarrow> jsstring" where
  "guardPatterns digraph exceptionPatterns text =
     foldl (\<lambda>result pattern. replaceGlobal True pattern (guardDigraph digraph) result)
           text exceptionPatterns"

definition handleDigraphExceptions :: "jsstring \<Rightarrow> jsstring" where
  "handleDigraphExceptions text =
     foldl (\<lambda>result (digraph, exceptionPatterns). guardPatterns digraph exceptionPatterns result)
           text digraphExceptionPatterns"

definition toLatin :: "jsstring \<Rightarrow> jsstring" where
  "toLatin text =
     (if text = [] then []
      else foldl (\<lambda>result char.
                    result @ (case cyrillic2LatinMap char of Some v \<Rightarrow> v | None \<Rightarrow> char))
                 [] (codePoints text))"

text \<open>
  The placeholders \<open>${SKIP_PREFIX}MARKER_${i}__\<close> and \<open>${SKIP_PREFIX}WORD_${i}__\<close>.
\<close>

definition placeholder :: "jsstring \<Rightarrow> nat \<Rightarrow> jsstring" where
  "placeholder kind i = SKIP_PREFIX @ kind @ showNat i @ asc ''__''"

text \<open>
  The marker expression \<open>escapeRegExp(open) + '(.*?)' + escapeRegExp(close)\<close>. The
  escaping makes the two markers literal texts. \<open>lazyContent\<close> is the group \<open>(.*?)\<close>
  followed by the closing marker: the shortest run of code units other than line
  terminators after which the closing marker matches. \<open>matchMarker\<close> gives the content
  of the group and the length of the whole match at the head of the text.
\<close>

fun lazyContent :: "bool \<Rightarrow> jsstring \<Rightarrow> jsstring \<Rightarrow> jsstring option" where
  "lazyContent ignoreCase close [] = (if matchLiteral ignoreCase close [] then Some [] else None)"
| "lazyContent ignoreCase close (c # cs) =
     (if matchLiteral ignoreCase close (c # cs) then Some []
      else if isLineTerminator c then None
      else (case lazyContent ignoreCase close cs of
              None \<Rightarrow> None
            | Some content \<Rightarrow> Some (c # content)))"

definition matchMarker :: "bool \<Rightarrow> jsstring \<Rightarrow> jsstring \<Rightarrow> jsstring \<Rightarrow> (jsstring \<times> nat) option" where
  "matchMarker ignoreCase open close s =
     (if matchLiteral ignoreCase open s then
        (case lazyContent ignoreCase close (drop (length open) s) of
           None \<Rightarrow> None
         | Some content \<Rightarrow> Some (content, length open + length content + length close))
      else None)"

text \<open>
  \<open>workingText.replace(regex, (_, content) => ...)\<close> of the marker step: \<open>out\<close> is the
  text produced so far and \<open>tbl\<close> is \<open>markerReplacement\<close>; the counter \<open>i\<close> of the source
  is the length of \<open>tbl\<close>. After an empty match the search moves one code unit on.
\<close>

function markSkipMarkers ::
  "bool \<Rightarrow> jsstring \<Rightarrow> jsstring \<Rightarrow> jsstring \<Rightarrow> jsstring \<Rightarrow> jsstring list \<Rightarrow> jsstring \<times> jsstring list" where
  "markSkipMarkers ignoreCase open close [] out tbl =
     (case matchMarker ignoreCase open close [] of
        Some (content, n) \<Rightarrow> (out @ placeholder (asc ''MARKER_'') (length tbl), tbl @ [content])
      | None \<Rightarrow> (out, tbl))"
| "markSkipMarkers ignoreCase open close (c # cs) out tbl =
     (case matchMarker ignoreCase open close (c # cs) of
        Some (content, n) \<Rightarrow>
          (if n = 0 then
             markSkipMarkers ignoreCase open close cs
               (out @ placeholder (asc ''MARKER_'') (length tbl) @ [c]) (tbl @ [content])
           else
             markSkipMarkers ignoreCase open close (drop n (c # cs))
               (out @ placeholder (asc ''MARKER_'') (length tbl)) (tbl @ [content]))
      | None \<Rightarrow> markSkipMarkers ignoreCase open close cs (out @ [c]) tbl)"
  by pat_completeness auto
termination
  by (relation "measure (\<lambda>(ignoreCase, open, close, s, out, tbl). length s)") auto

definition containsEnglishLetter :: "jsstring \<Rightarrow> bool" where
  "containsEnglishLetter word = list_ex (\<lambda>c. c \<in> set (asc ''qwyxQWYX'')) word"

text \<open>
  \<open>workingText.replace(/\b\w+\b/g, (word) => ...)\<close>: a match is a maximal run of word
  characters. The function is entered at the start of the text and behind a match or a
  code unit that is not a word character, so a word character at the head starts a run.
\<close>

function markEnglishWords :: "jsstring \<Rightarrow> jsstring \<Rightarrow> jsstring list \<Rightarrow> jsstring \<times> jsstring list" where
  "markEnglishWords [] out tbl = (out, tbl)"
| "markEnglishWords (c # cs) out tbl =
     (if isWordChar c then
        (let word = takeWhile isWordChar (c # cs); rest = dropWhile isWordChar (c # cs) in
           if containsEnglishLetter word then
             markEnglishWords rest (out @ placeholder (asc ''WORD_'') (length tbl)) (tbl @ [word])
           else markEnglishWords rest (out @ word) tbl)
      else markEnglishWords cs (out @ [c]) tbl)"
  by pat_completeness auto
termination
  by (relation "measure (\<lambda>(s, out, tbl). length s)")
     (auto simp: length_dropWhile_le less_Suc_eq_le)

text \<open>
  The expression of one caller word,
  \<open>(^|[^\p{L}\p{N}_])(word)(?=[^\p{L}\p{N}_]|$)\<close>: \<open>boundaryAhead\<close> is the lookahead, and
  \<open>matchSkipWord\<close> gives the length of the match at the head of the text, trying the
  alternative \<open>^\<close> first (\<open>atStart\<close> says that the head is the start of the whole text).
\<close>

definition boundaryAhead :: "jsstring \<Rightarrow> bool" where
  "boundaryAhead s = (case s of [] \<Rightarrow> True | c # _ \<Rightarrow> \<not> isLetterNumberUnderscore c)"

definition matchSkipWord :: "bool \<Rightarrow> jsstring \<Rightarrow> bool \<Rightarrow> jsstring \<Rightarrow> nat option" where
  "matchSkipWord ignoreCase word atStart s =
     (if atStart \<and> matchLiteral ignoreCase word s \<and> boundaryAhead (drop (length word) s)
      then Some (length word)
      else (case s of
              [] \<Rightarrow> None
            | c # cs \<Rightarrow>
                if \<not> isLetterNumberUnderscore c \<and> matchLiteral ignoreCase word cs
                   \<and> boundaryAhead (drop (length word) cs)
                then Some (Suc (length word)) else None))"

text \<open>
  \<open>workingText.replace(regex, (matched) => ...)\<close> for one caller word; \<open>tbl\<close> is
  \<open>skipReplacement\<close>, which receives the whole match.
\<close>

function markSkipWord ::
  "bool \<Rightarrow> jsstring \<Rightarrow> bool \<Rightarrow> jsstring \<Rightarrow> jsstring \<Rightarrow> jsstring list \<Rightarrow> jsstring \<times> jsstring list" where
  "markSkipWord ignoreCase word atStart [] out tbl =
     (case matchSkipWord ignoreCase word atStart [] of
        Some n \<Rightarrow> (out @ placeholder (asc ''WORD_'') (length tbl), tbl @ [[]])
      | None \<Rightarrow> (out, tbl))"
| "markSkipWord ignoreCase word atStart (c # cs) out tbl =
     (case matchSkipWord ignoreCase word atStart (c # cs) of
        Some n \<Rightarrow>
          (if n = 0 then
             markSkipWord ignoreCase word False cs
               (out @ placeholder (asc ''WORD_'') (length tbl) @ [c]) (tbl @ [[]])
           else
             markSkipWord ignoreCase word False (drop n (c # cs))
               (out @ placeholder (asc ''WORD_'') (length tbl)) (tbl @ [take n (c # cs)]))
      | None \<Rightarrow> markSkipWord ignoreCase word False cs (out @ [c]) tbl)"
  by pat_completeness auto
termination
  by (relation "measure (\<lambda>(ignoreCase, word, atStart, s, out, tbl). length s)") auto

definition markSkipWords ::
  "bool \<Rightarrow> jsstring list \<Rightarrow> jsstring \<times> jsstring list \<Rightarrow> jsstring \<times> jsstring list" where
  "markSkipWords ignoreCase ws state =
     foldl (\<lambda>(workingText, tbl) word. markSkipWord ignoreCase word True workingText [] tbl)
           state ws"

definition mergeDigraphs :: "jsstring \<Rightarrow> jsstring" where
  "mergeDigraphs text =
     foldl (\<lambda>result (regexps, cyrillic). replaceGlobal False regexps (\<lambda>_. cyrillic) result)
           text digraphRegexps"

text \<open>
  The \<open>while\<close> loop of \<open>toCyrillic\<close>, with its variables \<open>result\<close>, \<open>i\<close> and
  \<open>cyrillicResult\<close>. Where the source changes none of them (the prefix is at \<open>i\<close> and no
  \<open>__\<close> follows it) the loop is entered again in the same state. A run of the loop that
  never ends is the value \<open>None\<close>.
\<close>

partial_function (option) transliterateLoop :: "jsstring \<Rightarrow> nat \<Rightarrow> jsstring \<Rightarrow> jsstring option" where
  "transliterateLoop result i cyrillicResult =
     (if i < length result then
        (if indexOf SKIP_PREFIX result i = Some i then
           (case indexOf (asc ''__'') result (i + length SKIP_PREFIX) of
              Some e \<Rightarrow>
                transliterateLoop result (e + 2) (cyrillicResult @ slice result i (e + 2))
            | None \<Rightarrow> transliterateLoop result i cyrillicResult)
         else
           (let char = [result ! i] in
              transliterateLoop result (i + 1)
                (if char \<noteq> ZWNJ then
                   cyrillicResult @ (case latin2CyrillicMap char of Some v \<Rightarrow> v | None \<Rightarrow> char)
                 else cyrillicResult)))
      else Some cyrillicResult)"

text \<open>The two restoring loops: \<open>i\<close> counts up while the table is walked.\<close>

fun restore :: "jsstring \<Rightarrow> nat \<Rightarrow> jsstring list \<Rightarrow> jsstring \<Rightarrow> jsstring" where
  "restore kind i [] result = result"
| "restore kind i (r # rs) result =
     restore kind (Suc i) rs (replaceFirst (placeholder kind i) r result)"

definition orElse :: "'a option \<Rightarrow> 'a option \<Rightarrow> 'a option" where
  "orElse a b = (case a of Some v \<Rightarrow> Some v | None \<Rightarrow> b)"

definition toCyrillic :: "jsstring \<Rightarrow> toCyrillicOptions option \<Rightarrow> (error + jsstring) option" where
  "toCyrillic text options =
     (if text = [] then Some (Inr [])
      else
        (let given = Option.bind options skip;
             skipR = \<lparr>caseSensitive =
                        orElse (Option.bind given caseSensitive) (caseSensitive defaultSkip),
                      words = orElse (Option.bind given words) (words defaultSkip),
                      markers = orElse (Option.bind given markers) (markers defaultSkip)\<rparr>;
             handleSkipMarkers = (case markers skipR of Some ms \<Rightarrow> length ms = 2 | None \<Rightarrow> False);
             handleSkipWords = (case words skipR of Some ws \<Rightarrow> 0 < length ws | None \<Rightarrow> False);
             ignoreCase = (caseSensitive skipR \<noteq> Some True)
         in
           if handleSkipMarkers \<and> the (markers skipR) ! 0 = the (markers skipR) ! 1
           then Some (Inl IdenticalMarkers)
           else
             (let (workingText1, markerReplacement) =
                    (if handleSkipMarkers then
                       markSkipMarkers ignoreCase (the (markers skipR) ! 0)
                         (the (markers skipR) ! 1) text [] []
                     else (text, []));
                  (workingText2, skipReplacement1) = markEnglishWords workingText1 [] [];
                  (workingText, skipReplacement) =
                    (if handleSkipWords then
                       markSkipWords ignoreCase (the (words skipR)) (workingText2, skipReplacement1)
                     else (workingText2, skipReplacement1));
                  result = mergeDigraphs (handleDigraphExceptions workingText)
              in
                case transliterateLoop result 0 [] of
                  None \<Rightarrow> None
                | Some cyrillicResult \<Rightarrow>
                    Some (Inr (replaceGlobal False ZWNJ (\<lambda>_. [])
                                 (restore (asc ''WORD_'') 0 skipReplacement
                                    (restore (asc ''MARKER_'') 0 markerReplacement
                                       cyrillicResult)))))))"

text \<open>
  The body of the loop of \<open>countCyrillicAndLatinLetters\<close>, on the two counters, and the
  loop itself.
\<close>

definition countStep :: "letterCount \<Rightarrow> jsstring \<Rightarrow> letterCount" where
  "countStep n char =
     (if cyrillic2LatinMap char \<noteq> None then n\<lparr>cyrillic := cyrillic n + 1\<rparr>
      else if latin2CyrillicMap char \<noteq> None then n\<lparr>latin := latin n + 1\<rparr>
      else n)"

definition countCyrillicAndLatinLetters :: "jsstring \<Rightarrow> letterCount" where
  "countCyrillicAndLatinLetters text =
     foldl countStep \<lparr>cyrillic = 0, latin = 0\<rparr> (codePoints text)"

definition isCyrillic :: "jsstring \<Rightarrow> bool" where
  "isCyrillic text =
     (if text = [] then False
      else (let letters = countCyrillicAndLatinLetters text in cyrillic letters > latin letters))"

definition isLatin :: "jsstring \<Rightarrow> bool" where
  "isLatin text =
     (if text = [] then False
      else (let letters = countCyrillicAndLatinLetters text in latin letters > cyrillic letters))"

section \<open>Notions used to state the properties\<close>

text \<open>The pattern matches somewhere in the text.\<close>

fun occursIn :: "bool \<Rightarrow> jsstring \<Rightarrow> jsstring \<Rightarrow> bool" where
  "occursIn ignoreCase pat [] = matchLiteral ignoreCase pat []"
| "occursIn ignoreCase pat (c # cs) =
     (matchLiteral ignoreCase pat (c # cs) \<or> occursIn ignoreCase pat cs)"

text \<open>What \<open>map[char] ?? char\<close> gives.\<close>

definition mapped :: "(jsstring \<rightharpoonup> jsstring) \<Rightarrow> jsstring \<Rightarrow> jsstring" where
  "mapped m char = (case m char of Some v \<Rightarrow> v | None \<Rightarrow> char)"

text \<open>
  The loop of \<open>toCyrillic\<close> read on the rest of the text from \<open>i\<close> on: a terminating
  function that has the result of the loop where the loop ends, and \<open>None\<close> where the
  loop comes back to the state it is in (\<open>transliterateLoop_scanText\<close> below proves that
  the two agree).
\<close>

function scanText :: "jsstring \<Rightarrow> jsstring \<Rightarrow> jsstring option" where
  "scanText [] acc = Some acc"
| "scanText (c # cs) acc =
     (if matchLiteral False SKIP_PREFIX (c # cs) then
        (case indexOfFrom (asc ''__'') (drop (length SKIP_PREFIX) (c # cs)) 0 of
           Some k \<Rightarrow>
             scanText (drop (length SKIP_PREFIX + k + 2) (c # cs))
               (acc @ take (length SKIP_PREFIX + k + 2) (c # cs))
         | None \<Rightarrow> None)
      else scanText cs (if [c] \<noteq> ZWNJ then acc @ mapped latin2CyrillicMap [c] else acc))"
  by pat_completeness auto
termination
  by (relation "measure (\<lambda>(s, acc). length s)") (auto simp: SKIP_PREFIX_def)

section \<open>Literal matching and global replacement\<close>

lemma matchLiteral_Nil [simp]: "matchLiteral ic pat [] = (pat = [])"
  by (cases pat) simp_all

lemma matchLiteral_length: "matchLiteral ic pat s \<Longrightarrow> length pat \<le> length s"
  by (induction ic pat s rule: matchLiteral.induct) simp_all

lemma matchLiteral_append:
  "matchLiteral ic (a @ b) s = (matchLiteral ic a s \<and> matchLiteral ic b (drop (length a) s))"
proof (induction a arbitrary: s)
  case Nil
  show ?case by simp
next
  case (Cons x a)
  show ?case by (cases s) (simp_all add: Cons.IH)
qed

lemma matchLiteral_exact: "matchLiteral False pat s = (\<exists>r. s = pat @ r)"
proof (induction pat arbitrary: s)
  case Nil
  show ?case by simp
next
  case (Cons p pat)
  show ?case by (cases s) (auto simp: Cons.IH sameChar_def)
qed

lemma occursIn_iff: "occursIn ic pat s = (\<exists>n\<le>length s. matchLiteral ic pat (drop n s))"
proof (induction s)
  case Nil
  show ?case by simp
next
  case (Cons c cs)
  show ?case
  proof
    assume "occursIn ic pat (c # cs)"
    then consider "matchLiteral ic pat (c # cs)" | "occursIn ic pat cs" by auto
    then show "\<exists>n\<le>length (c # cs). matchLiteral ic pat (drop n (c # cs))"
    proof cases
      case 1
      then have "matchLiteral ic pat (drop 0 (c # cs))" by simp
      then show ?thesis by blast
    next
      case 2
      then obtain n where "n \<le> length cs" "matchLiteral ic pat (drop n cs)"
        using Cons.IH by auto
      then have "Suc n \<le> length (c # cs)" "matchLiteral ic pat (drop (Suc n) (c # cs))"
        by simp_all
      then show ?thesis by blast
    qed
  next
    assume "\<exists>n\<le>length (c # cs). matchLiteral ic pat (drop n (c # cs))"
    then obtain n where n: "n \<le> length (c # cs)" "matchLiteral ic pat (drop n (c # cs))"
      by blast
    show "occursIn ic pat (c # cs)"
    proof (cases n)
      case 0
      with n show ?thesis by simp
    next
      case (Suc m)
      with n have "m \<le> length cs" "matchLiteral ic pat (drop m cs)" by simp_all
      then have "occursIn ic pat cs" using Cons.IH by blast
      then show ?thesis by simp
    qed
  qed
qed

lemma occursIn_part:
  assumes "occursIn ic (a @ k @ b) s"
  shows "occursIn ic k s"
proof -
  from assms obtain n where n: "n \<le> length s" "matchLiteral ic (a @ k @ b) (drop n s)"
    by (auto simp: occursIn_iff)
  then have len: "length (a @ k @ b) \<le> length (drop n s)"
    by (blast dest: matchLiteral_length)
  from n have "matchLiteral ic k (drop (length a) (drop n s))"
    by (simp add: matchLiteral_append)
  then have "matchLiteral ic k (drop (n + length a) s)"
    by (simp add: add.commute)
  moreover from len n(1) have "n + length a \<le> length s" by simp
  ultimately show ?thesis unfolding occursIn_iff by blast
qed

lemma occursIn_exact: "occursIn False k p \<Longrightarrow> \<exists>a b. p = a @ k @ b"
proof -
  assume "occursIn False k p"
  then obtain n where "matchLiteral False k (drop n p)" by (auto simp: occursIn_iff)
  then obtain r where "drop n p = k @ r" by (auto simp: matchLiteral_exact)
  then have "p = take n p @ k @ r" by (metis append_take_drop_id)
  then show ?thesis by blast
qed

lemma replaceGlobal_absent: "\<not> occursIn ic pat s \<Longrightarrow> replaceGlobal ic pat f s = s"
  by (induction s) auto

lemma guardPatterns_absent:
  "\<forall>p\<in>set ps. \<not> occursIn True p s \<Longrightarrow> guardPatterns k ps s = s"
  unfolding guardPatterns_def
  by (induction ps) (simp_all add: replaceGlobal_absent)

lemma guardPatterns_key_absent:
  assumes "\<forall>p\<in>set ps. occursIn False k p" and "\<not> occursIn True k s"
  shows "guardPatterns k ps s = s"
proof (rule guardPatterns_absent, rule ballI)
  fix p assume "p \<in> set ps"
  with assms(1) obtain a b where "p = a @ k @ b" by (blast dest: occursIn_exact)
  with assms(2) show "\<not> occursIn True p s" by (blast dest: occursIn_part)
qed

lemma handleDigraphExceptions_groups:
  "handleDigraphExceptions s =
     guardPatterns (asc ''nj'') exceptionPatterns_nj
       (guardPatterns (asc ''d'' @ [0x17E]) exceptionPatterns_dzh
          (guardPatterns (asc ''dj'') exceptionPatterns_dj s))"
  by (simp add: handleDigraphExceptions_def digraphExceptionPatterns_def)

lemma patterns_dj_key: "\<forall>p\<in>set exceptionPatterns_dj. occursIn False (asc ''dj'') p"
  by (simp add: exceptionPatterns_dj_def asc_def sameChar_def)

lemma patterns_dzh_key: "\<forall>p\<in>set exceptionPatterns_dzh. occursIn False (asc ''d'' @ [0x17E]) p"
  by (simp add: exceptionPatterns_dzh_def asc_def sameChar_def)

lemma patterns_nj_key: "\<forall>p\<in>set exceptionPatterns_nj. occursIn False (asc ''nj'') p"
  by (simp add: exceptionPatterns_nj_def asc_def sameChar_def)

lemma handleDigraphExceptions_key_absent:
  assumes "\<not> occursIn True (asc ''dj'') s" and "\<not> occursIn True (asc ''d'' @ [0x17E]) s"
    and "\<not> occursIn True (asc ''nj'') s"
  shows "handleDigraphExceptions s = s"
  using assms
  by (simp add: handleDigraphExceptions_groups guardPatterns_key_absent
      patterns_dj_key patterns_dzh_key patterns_nj_key)

section \<open>The loop\<close>

lemma transliterateLoop_stuck:
  assumes "i < length result" and "indexOf SKIP_PREFIX result i = Some i"
    and "indexOf (asc ''__'') result (i + length SKIP_PREFIX) = None"
  shows "transliterateLoop result i acc = None"
proof (cases "transliterateLoop result i acc")
  case None
  then show ?thesis .
next
  case (Some y)
  define stuck where "stuck r j \<longleftrightarrow> j < length r \<and> indexOf SKIP_PREFIX r j = Some j
      \<and> indexOf (asc ''__'') r (j + length SKIP_PREFIX) = None" for r j
  have "\<not> stuck result i"
  proof (rule transliterateLoop.raw_induct
      [where P = "\<lambda>r j a y. \<not> stuck r j", OF _ Some])
    fix loop :: "jsstring \<Rightarrow> nat \<Rightarrow> jsstring \<Rightarrow> jsstring option" and r j a y
    assume IH: "\<And>r j a y. loop r j a = Some y \<Longrightarrow> \<not> stuck r j"
    assume body: "(if j < length r then
        (if indexOf SKIP_PREFIX r j = Some j then
           (case indexOf (asc ''__'') r (j + length SKIP_PREFIX) of
              Some e \<Rightarrow> loop r (e + 2) (a @ slice r j (e + 2))
            | None \<Rightarrow> loop r j a)
         else
           (let char = [r ! j] in
              loop r (j + 1)
                (if char \<noteq> ZWNJ then
                   a @ (case latin2CyrillicMap char of Some v \<Rightarrow> v | None \<Rightarrow> char)
                 else a)))
      else Some a) = Some y"
    show "\<not> stuck r j"
    proof
      assume s: "stuck r j"
      with body have "loop r j a = Some y" by (simp add: stuck_def)
      with IH s show False by blast
    qed
  qed
  with assms show ?thesis by (simp add: stuck_def)
qed

section \<open>toLatin and the letter counts\<close>

lemma foldl_append_mapped:
  "foldl (\<lambda>result char. result @ g char) acc cps = acc @ concat (map g cps)"
  by (induction cps arbitrary: acc) simp_all

lemma toLatin_concat:
  "toLatin text = concat (map (mapped cyrillic2LatinMap) (codePoints text))"
proof -
  have "(\<lambda>result char. result @ (case cyrillic2LatinMap char of Some v \<Rightarrow> v | None \<Rightarrow> char))
        = (\<lambda>result char. result @ mapped cyrillic2LatinMap char)"
    by (simp add: mapped_def)
  then show ?thesis
    by (cases "text = []") (simp_all add: toLatin_def foldl_append_mapped)
qed

lemma cyrillic_keys_all:
  "\<forall>e\<in>set cyrillic2LatinMap_entries.
     length (fst e) = 1 \<and> 0x400 \<le> hd (fst e) \<and> hd (fst e) < 0x460"
  by (simp add: cyrillic2LatinMap_entries_def)

lemma latin_keys_all:
  "\<forall>e\<in>set latin2CyrillicMap_entries. length (fst e) = 1 \<and> hd (fst e) < 0x400"
  by (simp add: latin2CyrillicMap_entries_def asc_def)

lemma single_hd: "length k = Suc 0 \<Longrightarrow> k = [hd k]"
  by (cases k) simp_all

lemma cyrillic_key:
  assumes "cyrillic2LatinMap char \<noteq> None"
  shows "char = [hd char] \<and> 0x400 \<le> hd char \<and> hd char < 0x460"
proof -
  from assms obtain e where "e \<in> set cyrillic2LatinMap_entries" "fst e = char"
    by (auto simp: cyrillic2LatinMap_def map_of_eq_None_iff)
  with cyrillic_keys_all show ?thesis by (auto dest: single_hd)
qed

lemma latin_key:
  assumes "latin2CyrillicMap char \<noteq> None"
  shows "char = [hd char] \<and> hd char < 0x400"
proof -
  from assms obtain e where "e \<in> set latin2CyrillicMap_entries" "fst e = char"
    by (auto simp: latin2CyrillicMap_def map_of_eq_None_iff)
  with latin_keys_all show ?thesis by (auto dest: single_hd)
qed

lemma keys_disjoint: "cyrillic2LatinMap char \<noteq> None \<Longrightarrow> latin2CyrillicMap char = None"
  using cyrillic_key [of char] latin_key [of char] by fastforce

lemma count_foldl:
  "foldl countStep n0 cps
   = \<lparr>cyrillic = cyrillic n0 + length (filter (\<lambda>char. cyrillic2LatinMap char \<noteq> None) cps),
      latin = latin n0 + length (filter (\<lambda>char. latin2CyrillicMap char \<noteq> None) cps)\<rparr>"
proof (induction cps arbitrary: n0)
  case Nil
  show ?case by simp
next
  case (Cons c cps)
  show ?case
  proof (cases "cyrillic2LatinMap c \<noteq> None")
    case True
    then have l: "latin2CyrillicMap c = None" by (rule keys_disjoint)
    from True have "countStep n0 c = n0\<lparr>cyrillic := cyrillic n0 + 1\<rparr>"
      by (simp add: countStep_def)
    with True l show ?thesis by (simp add: Cons.IH)
  next
    case False
    show ?thesis
    proof (cases "latin2CyrillicMap c \<noteq> None")
      case True
      with False have "countStep n0 c = n0\<lparr>latin := latin n0 + 1\<rparr>"
        by (simp add: countStep_def)
      with False True show ?thesis by (simp add: Cons.IH)
    next
      case nl: False
      with False have "countStep n0 c = n0" by (simp add: countStep_def)
      with False nl show ?thesis by (simp add: Cons.IH)
    qed
  qed
qed

lemma countCyrillicAndLatinLetters_eq:
  "countCyrillicAndLatinLetters text =
     \<lparr>cyrillic = length (filter (\<lambda>char. cyrillic2LatinMap char \<noteq> None) (codePoints text)),
      latin = length (filter (\<lambda>char. latin2CyrillicMap char \<noteq> None) (codePoints text))\<rparr>"
  by (simp add: countCyrillicAndLatinLetters_def count_foldl)

section \<open>The loop as a function of the rest of the text\<close>

lemma indexOfFrom_ge: "indexOfFrom pat s k = Some j \<Longrightarrow> k \<le> j"
  by (induction s arbitrary: k) (auto split: if_splits dest: Suc_leD)

lemma indexOfFrom_here: "(indexOfFrom pat s k = Some k) = matchLiteral False pat s"
proof (cases s)
  case Nil
  then show ?thesis by simp
next
  case (Cons c cs)
  have "indexOfFrom pat cs (Suc k) \<noteq> Some k"
    using indexOfFrom_ge [of pat cs "Suc k" k] by auto
  with Cons show ?thesis by simp
qed

lemma indexOfFrom_shift:
  "indexOfFrom pat s k = map_option (\<lambda>j. j + k) (indexOfFrom pat s 0)"
proof (induction s arbitrary: k)
  case Nil
  show ?case by simp
next
  case (Cons c cs)
  show ?case
    using Cons.IH [of "Suc k"] Cons.IH [of "Suc 0"]
    by (simp add: option.map_comp comp_def)
qed

lemma indexOf_here:
  "i \<le> length s \<Longrightarrow> (indexOf pat s i = Some i) = matchLiteral False pat (drop i s)"
  by (simp add: indexOf_def indexOfFrom_here min_def)

lemma indexOf_from:
  "i \<le> length s \<Longrightarrow> indexOf pat s i = map_option (\<lambda>j. j + i) (indexOfFrom pat (drop i s) 0)"
  using indexOfFrom_shift [of pat "drop i s" i] by (simp add: indexOf_def min_def)

lemma indexOfFrom_bound: "indexOfFrom pat s j = Some k \<Longrightarrow> k + length pat \<le> j + length s"
proof (induction s arbitrary: j)
  case Nil
  then show ?case by (simp split: if_splits)
next
  case (Cons c cs)
  show ?case
  proof (cases "matchLiteral False pat (c # cs)")
    case True
    with Cons.prems have "k = j" by simp
    with True show ?thesis by (auto dest: matchLiteral_length)
  next
    case False
    with Cons.prems have "indexOfFrom pat cs (Suc j) = Some k" by simp
    then have "k + length pat \<le> Suc j + length cs" by (rule Cons.IH)
    then show ?thesis by simp
  qed
qed

lemma drop_Cons_nth:
  assumes "drop i xs = c # cs"
  shows "i < length xs \<and> xs ! i = c \<and> drop (Suc i) xs = cs"
proof -
  from assms have i: "i < length xs" by (cases "i < length xs") simp_all
  then have "xs ! i # drop (Suc i) xs = c # cs"
    using assms by (simp add: Cons_nth_drop_Suc)
  with i show ?thesis by simp
qed

lemma transliterateLoop_scanText:
  "i \<le> length result \<Longrightarrow> transliterateLoop result i acc = scanText (drop i result) acc"
proof (induction "drop i result" acc arbitrary: i rule: scanText.induct)
  case (1 acc)
  then have "\<not> i < length result" by simp
  with 1 show ?case by (subst transliterateLoop.simps) simp
next
  case (2 c cs acc)
  from 2(3) have d: "drop i result = c # cs" by (rule sym)
  from drop_Cons_nth [OF d]
  have i: "i < length result" and c: "result ! i = c" and cs: "drop (Suc i) result = cs"
    by simp_all
  show ?case
  proof (cases "matchLiteral False SKIP_PREFIX (c # cs)")
    case True
    then have here: "indexOf SKIP_PREFIX result i = Some i"
      using i d by (simp add: indexOf_here)
    from True have "length SKIP_PREFIX \<le> length (c # cs)" by (rule matchLiteral_length)
    moreover have "length (c # cs) = length result - i"
      using d by (metis length_drop)
    ultimately have le: "i + length SKIP_PREFIX \<le> length result"
      using i by arith
    have dd: "drop (i + length SKIP_PREFIX) result = drop (length SKIP_PREFIX) (c # cs)"
      using d drop_drop [of "length SKIP_PREFIX" i result] by (simp add: add.commute)
    show ?thesis
    proof (cases "indexOfFrom (asc ''__'') (drop (length SKIP_PREFIX) (c # cs)) 0")
      case None
      then have "indexOf (asc ''__'') result (i + length SKIP_PREFIX) = None"
        using le dd by (simp add: indexOf_from)
      with i here have "transliterateLoop result i acc = None"
        by (rule transliterateLoop_stuck)
      with True None show ?thesis by (simp add: d)
    next
      case (Some k)
      then have e: "indexOf (asc ''__'') result (i + length SKIP_PREFIX)
                    = Some (k + (i + length SKIP_PREFIX))"
        using le dd by (simp add: indexOf_from)
      from Some have "k + length (asc ''__'') \<le> 0 + length (drop (length SKIP_PREFIX) (c # cs))"
        by (rule indexOfFrom_bound)
      then have "k + 2 \<le> length (drop (i + length SKIP_PREFIX) result)"
        by (simp add: dd asc_def)
      then have "k + 2 \<le> length result - (i + length SKIP_PREFIX)"
        by simp
      with le have le2: "i + (length SKIP_PREFIX + k + 2) \<le> length result" by arith
      have dn: "drop (length SKIP_PREFIX + k + 2) (c # cs)
                = drop (i + (length SKIP_PREFIX + k + 2)) result"
        using d drop_drop [of "length SKIP_PREFIX + k + 2" i result] by (simp add: add.commute)
      have IH: "transliterateLoop result (i + (length SKIP_PREFIX + k + 2))
              (acc @ take (length SKIP_PREFIX + k + 2) (c # cs))
            = scanText (drop (i + (length SKIP_PREFIX + k + 2)) result)
                (acc @ take (length SKIP_PREFIX + k + 2) (c # cs))"
        using True Some dn le2 by (rule "2.hyps"(1))
      have sl: "slice result i (i + (length SKIP_PREFIX + k + 2))
                     = take (length SKIP_PREFIX + k + 2) (c # cs)"
        by (simp add: slice_def d)
      have ar: "k + (i + length SKIP_PREFIX) + 2 = i + (length SKIP_PREFIX + k + 2)"
        by simp
      have "transliterateLoop result i acc
            = transliterateLoop result (k + (i + length SKIP_PREFIX) + 2)
                (acc @ slice result i (k + (i + length SKIP_PREFIX) + 2))"
        using i here e by (subst transliterateLoop.simps) simp
      also have "\<dots> = transliterateLoop result (i + (length SKIP_PREFIX + k + 2))
                (acc @ take (length SKIP_PREFIX + k + 2) (c # cs))"
        by (simp only: ar sl)
      also note IH
      finally have "transliterateLoop result i acc
            = scanText (drop (length SKIP_PREFIX + k + 2) (c # cs))
                (acc @ take (length SKIP_PREFIX + k + 2) (c # cs))"
        by (simp only: dn)
      with True Some show ?thesis by (simp add: d)
    qed
  next
    case False
    then have nothere: "indexOf SKIP_PREFIX result i \<noteq> Some i"
      using i d by (simp add: indexOf_here)
    have IH: "transliterateLoop result (Suc i)
            (if [c] \<noteq> ZWNJ then acc @ mapped latin2CyrillicMap [c] else acc)
          = scanText (drop (Suc i) result)
              (if [c] \<noteq> ZWNJ then acc @ mapped latin2CyrillicMap [c] else acc)"
      using False cs [symmetric] i by (intro "2.hyps"(2)) simp_all
    have "transliterateLoop result i acc
          = transliterateLoop result (Suc i)
              (if [c] \<noteq> ZWNJ then acc @ mapped latin2CyrillicMap [c] else acc)"
      using i nothere c
      by (subst transliterateLoop.simps) (simp add: Let_def mapped_def)
    also note IH
    finally have "transliterateLoop result i acc
          = scanText cs (if [c] \<noteq> ZWNJ then acc @ mapped latin2CyrillicMap [c] else acc)"
      by (simp only: cs)
    with False show ?thesis by (simp add: d)
  qed
qed

section \<open>Tables for running the functions on given texts\<close>

lemma latin2CyrillicMap_table:
  "latin2CyrillicMap [97] = Some [0x430]" "latin2CyrillicMap [98] = Some [0x431]"
  "latin2CyrillicMap [118] = Some [0x432]" "latin2CyrillicMap [103] = Some [0x433]"
  "latin2CyrillicMap [100] = Some [0x434]" "latin2CyrillicMap [0x111] = Some [0x452]"
  "latin2CyrillicMap [101] = Some [0x435]" "latin2CyrillicMap [0x17E] = Some [0x436]"
  "latin2CyrillicMap [122] = Some [0x437]" "latin2CyrillicMap [105] = Some [0x438]"
  "latin2CyrillicMap [106] = Some [0x458]" "latin2CyrillicMap [107] = Some [0x43A]"
  "latin2CyrillicMap [108] = Some [0x43B]" "latin2CyrillicMap [109] = Some [0x43C]"
  "latin2CyrillicMap [110] = Some [0x43D]" "latin2CyrillicMap [111] = Some [0x43E]"
  "latin2CyrillicMap [112] = Some [0x43F]" "latin2CyrillicMap [114] = Some [0x440]"
  "latin2CyrillicMap [115] = Some [0x441]" "latin2CyrillicMap [116] = Some [0x442]"
  "latin2CyrillicMap [0x107] = Some [0x45B]" "latin2CyrillicMap [117] = Some [0x443]"
  "latin2CyrillicMap [102] = Some [0x444]" "latin2CyrillicMap [104] = Some [0x445]"
  "latin2CyrillicMap [99] = Some [0x446]" "latin2CyrillicMap [0x10D] = Some [0x447]"
  "latin2CyrillicMap [0x161] = Some [0x448]" "latin2CyrillicMap [65] = Some [0x410]"
  "latin2CyrillicMap [66] = Some [0x411]" "latin2CyrillicMap [86] = Some [0x412]"
  "latin2CyrillicMap [71] = Some [0x413]" "latin2CyrillicMap [68] = Some [0x414]"
  "latin2CyrillicMap [0x110] = Some [0x402]" "latin2CyrillicMap [69] = Some [0x415]"
  "latin2CyrillicMap [0x17D] = Some [0x416]" "latin2CyrillicMap [90] = Some [0x417]"
  "latin2CyrillicMap [73] = Some [0x418]" "latin2CyrillicMap [74] = Some [0x408]"
  "latin2CyrillicMap [75] = Some [0x41A]" "latin2CyrillicMap [76] = Some [0x41B]"
  "latin2CyrillicMap [77] = Some [0x41C]" "latin2CyrillicMap [78] = Some [0x41D]"
  "latin2CyrillicMap [79] = Some [0x41E]" "latin2CyrillicMap [80] = Some [0x41F]"
  "latin2CyrillicMap [82] = Some [0x420]" "latin2CyrillicMap [83] = Some [0x421]"
  "latin2CyrillicMap [84] = Some [0x422]" "latin2CyrillicMap [0x106] = Some [0x40B]"
  "latin2CyrillicMap [85] = Some [0x423]" "latin2CyrillicMap [70] = Some [0x424]"
  "latin2CyrillicMap [72] = Some [0x425]" "latin2CyrillicMap [67] = Some [0x426]"
  "latin2CyrillicMap [0x10C] = Some [0x427]" "latin2CyrillicMap [0x160] = Some [0x428]"
  "latin2CyrillicMap [113] = None" "latin2CyrillicMap [119] = None"
  "latin2CyrillicMap [120] = None" "latin2CyrillicMap [121] = None"
  "latin2CyrillicMap [81] = None" "latin2CyrillicMap [87] = None"
  "latin2CyrillicMap [88] = None" "latin2CyrillicMap [89] = None"
  "latin2CyrillicMap [95] = None"
  by (simp_all add: latin2CyrillicMap_def latin2CyrillicMap_entries_def asc_def)

lemma latin_keys_range:
  "\<forall>e\<in>set latin2CyrillicMap_entries. 65 \<le> hd (fst e) \<and> hd (fst e) < 0x400"
  by (simp add: latin2CyrillicMap_entries_def asc_def)

lemma latin2CyrillicMap_outside: "c < 65 \<or> 0x400 \<le> c \<Longrightarrow> latin2CyrillicMap [c] = None"
proof (rule ccontr)
  assume c: "c < 65 \<or> 0x400 \<le> c" and "latin2CyrillicMap [c] \<noteq> None"
  then obtain e where "e \<in> set latin2CyrillicMap_entries" "fst e = [c]"
    by (auto simp: latin2CyrillicMap_def map_of_eq_None_iff)
  with latin_keys_range have "65 \<le> c \<and> c < 0x400" by fastforce
  with c show False by simp
qed

lemma latin2CyrillicMap_low [simp]: "c < 65 \<Longrightarrow> latin2CyrillicMap [c] = None"
  and latin2CyrillicMap_high [simp]: "0x400 \<le> c \<Longrightarrow> latin2CyrillicMap [c] = None"
  by (simp_all add: latin2CyrillicMap_outside)

lemma canonicalize_table:
  "canonicalize 32 = 32" "canonicalize 33 = 33" "canonicalize 34 = 34" "canonicalize 35 = 35"
  "canonicalize 36 = 36" "canonicalize 37 = 37" "canonicalize 38 = 38" "canonicalize 39 = 39"
  "canonicalize 40 = 40" "canonicalize 41 = 41" "canonicalize 42 = 42" "canonicalize 43 = 43"
  "canonicalize 44 = 44" "canonicalize 45 = 45" "canonicalize 46 = 46" "canonicalize 47 = 47"
  "canonicalize 48 = 48" "canonicalize 49 = 49" "canonicalize 50 = 50" "canonicalize 51 = 51"
  "canonicalize 52 = 52" "canonicalize 53 = 53" "canonicalize 54 = 54" "canonicalize 55 = 55"
  "canonicalize 56 = 56" "canonicalize 57 = 57" "canonicalize 58 = 58" "canonicalize 59 = 59"
  "canonicalize 60 = 60" "canonicalize 61 = 61" "canonicalize 62 = 62" "canonicalize 63 = 63"
  "canonicalize 64 = 64" "canonicalize 65 = 65" "canonicalize 66 = 66" "canonicalize 67 = 67"
  "canonicalize 68 = 68" "canonicalize 69 = 69" "canonicalize 70 = 70" "canonicalize 71 = 71"
  "canonicalize 72 = 72" "canonicalize 73 = 73" "canonicalize 74 = 74" "canonicalize 75 = 75"
  "canonicalize 76 = 76" "canonicalize 77 = 77" "canonicalize 78 = 78" "canonicalize 79 = 79"
  "canonicalize 80 = 80" "canonicalize 81 = 81" "canonicalize 82 = 82" "canonicalize 83 = 83"
  "canonicalize 84 = 84" "canonicalize 85 = 85" "canonicalize 86 = 86" "canonicalize 87 = 87"
  "canonicalize 88 = 88" "canonicalize 89 = 89" "canonicalize 90 = 90" "canonicalize 91 = 91"
  "canonicalize 92 = 92" "canonicalize 93 = 93" "canonicalize 94 = 94" "canonicalize 95 = 95"
  "canonicalize 96 = 96" "canonicalize 97 = 65" "canonicalize 98 = 66" "canonicalize 99 = 67"
  "canonicalize 100 = 68" "canonicalize 101 = 69" "canonicalize 102 = 70"
  "canonicalize 103 = 71" "canonicalize 104 = 72" "canonicalize 105 = 73"
  "canonicalize 106 = 74" "canonicalize 107 = 75" "canonicalize 108 = 76"
  "canonicalize 109 = 77" "canonicalize 110 = 78" "canonicalize 111 = 79"
  "canonicalize 112 = 80" "canonicalize 113 = 81" "canonicalize 114 = 82"
  "canonicalize 115 = 83" "canonicalize 116 = 84" "canonicalize 117 = 85"
  "canonicalize 118 = 86" "canonicalize 119 = 87" "canonicalize 120 = 88"
  "canonicalize 121 = 89" "canonicalize 122 = 90" "canonicalize 123 = 123"
  "canonicalize 124 = 124" "canonicalize 125 = 125" "canonicalize 126 = 126"
  "canonicalize 0x106 = 0x106" "canonicalize 0x107 = 0x106" "canonicalize 0x10C = 0x10C"
  "canonicalize 0x10D = 0x10C" "canonicalize 0x110 = 0x110" "canonicalize 0x111 = 0x110"
  "canonicalize 0x160 = 0x160" "canonicalize 0x161 = 0x160" "canonicalize 0x17D = 0x17D"
  "canonicalize 0x17E = 0x17D" "canonicalize 0x415 = 0x415" "canonicalize 0x435 = 0x415"
  "canonicalize 0x200C = 0x200C" "canonicalize 0xE000 = 0xE000"
  by (simp_all add: canonicalize_def)

section \<open>Running \<open>toCyrillic\<close> step by step\<close>

lemma guardPatterns_dj_absent:
  "\<not> occursIn True (asc ''dj'') s \<Longrightarrow> guardPatterns (asc ''dj'') exceptionPatterns_dj s = s"
  using patterns_dj_key by (rule guardPatterns_key_absent)

lemma guardPatterns_dzh_absent:
  "\<not> occursIn True (asc ''d'' @ [0x17E]) s
   \<Longrightarrow> guardPatterns (asc ''d'' @ [0x17E]) exceptionPatterns_dzh s = s"
  using patterns_dzh_key by (rule guardPatterns_key_absent)

lemma guardPatterns_nj_absent:
  "\<not> occursIn True (asc ''nj'') s \<Longrightarrow> guardPatterns (asc ''nj'') exceptionPatterns_nj s = s"
  using patterns_nj_key by (rule guardPatterns_key_absent)

lemma toCyrillic_default:
  assumes "s \<noteq> []"
    and "markSkipMarkers False (asc ''<skip>'') (asc ''</skip>'') s [] [] = (w1, mt)"
    and "markEnglishWords w1 [] [] = (w2, st)"
    and "handleDigraphExceptions w2 = g"
    and "mergeDigraphs g = r"
  shows "toCyrillic s None =
     map_option (\<lambda>c. Inr (replaceGlobal False ZWNJ (\<lambda>_. [])
                            (restore (asc ''WORD_'') 0 st (restore (asc ''MARKER_'') 0 mt c))))
       (scanText r [])"
proof -
  have "asc ''<skip>'' \<noteq> asc ''</skip>''" by (simp add: asc_def)
  then show ?thesis
    using assms
    by (cases "scanText r []")
       (simp_all add: toCyrillic_def defaultSkip_def orElse_def Let_def transliterateLoop_scanText)
qed

lemma toCyrillic_default_result:
  assumes "s \<noteq> []"
    and "markSkipMarkers False (asc ''<skip>'') (asc ''</skip>'') s [] [] = (w1, mt)"
    and "markEnglishWords w1 [] [] = (w2, st)"
    and "handleDigraphExceptions w2 = g"
    and "mergeDigraphs g = r"
    and "scanText r [] = Some c"
    and "replaceGlobal False ZWNJ (\<lambda>_. [])
           (restore (asc ''WORD_'') 0 st (restore (asc ''MARKER_'') 0 mt c)) = out"
  shows "toCyrillic s None = Some (Inr out)"
  using toCyrillic_default [OF assms(1-5)] assms(6,7) by simp

lemma toCyrillic_default_diverges:
  assumes "s \<noteq> []"
    and "markSkipMarkers False (asc ''<skip>'') (asc ''</skip>'') s [] [] = (w1, mt)"
    and "markEnglishWords w1 [] [] = (w2, st)"
    and "handleDigraphExceptions w2 = g"
    and "mergeDigraphs g = r"
    and "scanText r [] = None"
  shows "toCyrillic s None = None"
  using toCyrillic_default [OF assms(1-5)] assms(6) by simp

lemma toCyrillic_words_result:
  assumes "s \<noteq> []" and "ws \<noteq> []"
    and "markSkipMarkers (\<not> cs) (asc ''<skip>'') (asc ''</skip>'') s [] [] = (w1, mt)"
    and "markEnglishWords w1 [] [] = (w2, st1)"
    and "markSkipWords (\<not> cs) ws (w2, st1) = (w3, st)"
    and "handleDigraphExceptions w3 = g"
    and "mergeDigraphs g = r"
    and "scanText r [] = Some c"
    and "replaceGlobal False ZWNJ (\<lambda>_. [])
           (restore (asc ''WORD_'') 0 st (restore (asc ''MARKER_'') 0 mt c)) = out"
  shows "toCyrillic s
           (Some \<lparr>skip = Some \<lparr>caseSensitive = Some cs, words = Some ws, markers = None\<rparr>\<rparr>)
         = Some (Inr out)"
proof -
  have "asc ''<skip>'' \<noteq> asc ''</skip>''" by (simp add: asc_def)
  then show ?thesis
    using assms
    by (simp add: toCyrillic_def defaultSkip_def orElse_def Let_def transliterateLoop_scanText)
qed

lemmas eval_defs = asc_def sameChar_def SKIP_PREFIX_def ZWNJ_def placeholder_def showNat.simps

section \<open>Worked runs\<close>

lemma ex_skip_region:
  "toCyrillic (asc ''ovo je <skip>some code</skip> za primer'') None
     = Some (Inr ([0x43E, 0x432, 0x43E] @ asc '' '' @ [0x458, 0x435] @ asc '' some code '' @ [0x437, 0x430] @ asc '' '' @ [0x43F, 0x440, 0x438, 0x43C, 0x435, 0x440]))"
proof -
  have ne: "asc ''ovo je <skip>some code</skip> za primer'' \<noteq> []" by (simp add: asc_def)
  have s1: "markSkipMarkers False (asc ''<skip>'') (asc ''</skip>'') (asc ''ovo je <skip>some code</skip> za primer'') [] []
      = (asc ''ovo je '' @ [0xE000] @ asc ''__SKIP__MARKER_0__ za primer'', [asc ''some code''])"
    by (simp add: eval_defs matchMarker_def isLineTerminator_def canonicalize_table)
  have s2: "markEnglishWords (asc ''ovo je '' @ [0xE000] @ asc ''__SKIP__MARKER_0__ za primer'') [] []
      = (asc ''ovo je '' @ [0xE000] @ asc ''__SKIP__MARKER_0__ za primer'', [])"
    by (simp add: eval_defs isWordChar_def containsEnglishLetter_def Let_def)
  have g_dj: "guardPatterns (asc ''dj'') exceptionPatterns_dj (asc ''ovo je '' @ [0xE000] @ asc ''__SKIP__MARKER_0__ za primer'')
      = asc ''ovo je '' @ [0xE000] @ asc ''__SKIP__MARKER_0__ za primer''"
    by (rule guardPatterns_dj_absent) (simp add: asc_def sameChar_def canonicalize_table)
  have g_dzh: "guardPatterns (asc ''d'' @ [0x17E]) exceptionPatterns_dzh (asc ''ovo je '' @ [0xE000] @ asc ''__SKIP__MARKER_0__ za primer'')
      = asc ''ovo je '' @ [0xE000] @ asc ''__SKIP__MARKER_0__ za primer''"
    by (rule guardPatterns_dzh_absent) (simp add: asc_def sameChar_def canonicalize_table)
  have g_nj: "guardPatterns (asc ''nj'') exceptionPatterns_nj (asc ''ovo je '' @ [0xE000] @ asc ''__SKIP__MARKER_0__ za primer'')
      = asc ''ovo je '' @ [0xE000] @ asc ''__SKIP__MARKER_0__ za primer''"
    by (rule guardPatterns_nj_absent) (simp add: asc_def sameChar_def canonicalize_table)
  have s3: "handleDigraphExceptions (asc ''ovo je '' @ [0xE000] @ asc ''__SKIP__MARKER_0__ za primer'')
      = asc ''ovo je '' @ [0xE000] @ asc ''__SKIP__MARKER_0__ za primer''"
    by (simp only: handleDigraphExceptions_groups g_dj g_dzh g_nj)
  have s4: "mergeDigraphs (asc ''ovo je '' @ [0xE000] @ asc ''__SKIP__MARKER_0__ za primer'')
      = asc ''ovo je '' @ [0xE000] @ asc ''__SKIP__MARKER_0__ za primer''"
    by (simp add: mergeDigraphs_def digraphRegexps_def eval_defs)
  have s5: "scanText (asc ''ovo je '' @ [0xE000] @ asc ''__SKIP__MARKER_0__ za primer'') []
      = Some ([0x43E, 0x432, 0x43E] @ asc '' '' @ [0x458, 0x435] @ asc '' '' @ [0xE000] @ asc ''__SKIP__MARKER_0__ '' @ [0x437, 0x430] @ asc '' '' @ [0x43F, 0x440, 0x438, 0x43C, 0x435, 0x440])"
    by (simp add: eval_defs mapped_def latin2CyrillicMap_table)
  have s6: "replaceGlobal False ZWNJ (\<lambda>_. [])
       (restore (asc ''WORD_'') 0 []
          (restore (asc ''MARKER_'') 0 [asc ''some code'']
             ([0x43E, 0x432, 0x43E] @ asc '' '' @ [0x458, 0x435] @ asc '' '' @ [0xE000] @ asc ''__SKIP__MARKER_0__ '' @ [0x437, 0x430] @ asc '' '' @ [0x43F, 0x440, 0x438, 0x43C, 0x435, 0x440])))
      = [0x43E, 0x432, 0x43E] @ asc '' '' @ [0x458, 0x435] @ asc '' some code '' @ [0x437, 0x430] @ asc '' '' @ [0x43F, 0x440, 0x438, 0x43C, 0x435, 0x440]"
    by (simp add: eval_defs replaceFirst_def indexOf_def)
  show ?thesis
    using ne s1 s2 s3 s4 s5 s6 by (rule toCyrillic_default_result)
qed

lemma ex_dollar:
  "toCyrillic (asc ''<skip>$$</skip>'') None
     = Some (Inr (asc ''$''))"
proof -
  have ne: "asc ''<skip>$$</skip>'' \<noteq> []" by (simp add: asc_def)
  have s1: "markSkipMarkers False (asc ''<skip>'') (asc ''</skip>'') (asc ''<skip>$$</skip>'') [] []
      = ([0xE000] @ asc ''__SKIP__MARKER_0__'', [asc ''$$''])"
    by (simp add: eval_defs matchMarker_def isLineTerminator_def canonicalize_table)
  have s2: "markEnglishWords ([0xE000] @ asc ''__SKIP__MARKER_0__'') [] []
      = ([0xE000] @ asc ''__SKIP__MARKER_0__'', [])"
    by (simp add: eval_defs isWordChar_def containsEnglishLetter_def Let_def)
  have g_dj: "guardPatterns (asc ''dj'') exceptionPatterns_dj ([0xE000] @ asc ''__SKIP__MARKER_0__'')
      = [0xE000] @ asc ''__SKIP__MARKER_0__''"
    by (rule guardPatterns_dj_absent) (simp add: asc_def sameChar_def canonicalize_table)
  have g_dzh: "guardPatterns (asc ''d'' @ [0x17E]) exceptionPatterns_dzh ([0xE000] @ asc ''__SKIP__MARKER_0__'')
      = [0xE000] @ asc ''__SKIP__MARKER_0__''"
    by (rule guardPatterns_dzh_absent) (simp add: asc_def sameChar_def canonicalize_table)
  have g_nj: "guardPatterns (asc ''nj'') exceptionPatterns_nj ([0xE000] @ asc ''__SKIP__MARKER_0__'')
      = [0xE000] @ asc ''__SKIP__MARKER_0__''"
    by (rule guardPatterns_nj_absent) (simp add: asc_def sameChar_def canonicalize_table)
  have s3: "handleDigraphExceptions ([0xE000] @ asc ''__SKIP__MARKER_0__'')
      = [0xE000] @ asc ''__SKIP__MARKER_0__''"
    by (simp only: handleDigraphExceptions_groups g_dj g_dzh g_nj)
  have s4: "mergeDigraphs ([0xE000] @ asc ''__SKIP__MARKER_0__'')
      = [0xE000] @ asc ''__SKIP__MARKER_0__''"
    by (simp add: mergeDigraphs_def digraphRegexps_def eval_defs)
  have s5: "scanText ([0xE000] @ asc ''__SKIP__MARKER_0__'') []
      = Some ([0xE000] @ asc ''__SKIP__MARKER_0__'')"
    by (simp add: eval_defs mapped_def latin2CyrillicMap_table)
  have s6: "replaceGlobal False ZWNJ (\<lambda>_. [])
       (restore (asc ''WORD_'') 0 []
          (restore (asc ''MARKER_'') 0 [asc ''$$'']
             ([0xE000] @ asc ''__SKIP__MARKER_0__'')))
      = asc ''$''"
    by (simp add: eval_defs replaceFirst_def indexOf_def)
  show ?thesis
    using ne s1 s2 s3 s4 s5 s6 by (rule toCyrillic_default_result)
qed

lemma ex_prefix_only:
  "toCyrillic ([0xE000] @ asc ''__SKIP__'') None
     = None"
proof -
  have ne: "[0xE000] @ asc ''__SKIP__'' \<noteq> []" by (simp add: asc_def)
  have s1: "markSkipMarkers False (asc ''<skip>'') (asc ''</skip>'') ([0xE000] @ asc ''__SKIP__'') [] []
      = ([0xE000] @ asc ''__SKIP__'', [])"
    by (simp add: eval_defs matchMarker_def isLineTerminator_def canonicalize_table)
  have s2: "markEnglishWords ([0xE000] @ asc ''__SKIP__'') [] []
      = ([0xE000] @ asc ''__SKIP__'', [])"
    by (simp add: eval_defs isWordChar_def containsEnglishLetter_def Let_def)
  have g_dj: "guardPatterns (asc ''dj'') exceptionPatterns_dj ([0xE000] @ asc ''__SKIP__'')
      = [0xE000] @ asc ''__SKIP__''"
    by (rule guardPatterns_dj_absent) (simp add: asc_def sameChar_def canonicalize_table)
  have g_dzh: "guardPatterns (asc ''d'' @ [0x17E]) exceptionPatterns_dzh ([0xE000] @ asc ''__SKIP__'')
      = [0xE000] @ asc ''__SKIP__''"
    by (rule guardPatterns_dzh_absent) (simp add: asc_def sameChar_def canonicalize_table)
  have g_nj: "guardPatterns (asc ''nj'') exceptionPatterns_nj ([0xE000] @ asc ''__SKIP__'')
      = [0xE000] @ asc ''__SKIP__''"
    by (rule guardPatterns_nj_absent) (simp add: asc_def sameChar_def canonicalize_table)
  have s3: "handleDigraphExceptions ([0xE000] @ asc ''__SKIP__'')
      = [0xE000] @ asc ''__SKIP__''"
    by (simp only: handleDigraphExceptions_groups g_dj g_dzh g_nj)
  have s4: "mergeDigraphs ([0xE000] @ asc ''__SKIP__'')
      = [0xE000] @ asc ''__SKIP__''"
    by (simp add: mergeDigraphs_def digraphRegexps_def eval_defs)
  have s5: "scanText ([0xE000] @ asc ''__SKIP__'') [] = None"
    by (simp add: eval_defs mapped_def latin2CyrillicMap_table)
  show ?thesis
    using ne s1 s2 s3 s4 s5 by (rule toCyrillic_default_diverges)
qed

lemma ex_adjektiv:
  "toCyrillic (asc ''adjektiv'') None
     = Some (Inr ([0x430, 0x434, 0x458, 0x435, 0x43A, 0x442, 0x438, 0x432]))"
proof -
  have ne: "asc ''adjektiv'' \<noteq> []" by (simp add: asc_def)
  have s1: "markSkipMarkers False (asc ''<skip>'') (asc ''</skip>'') (asc ''adjektiv'') [] []
      = (asc ''adjektiv'', [])"
    by (simp add: eval_defs matchMarker_def isLineTerminator_def canonicalize_table)
  have s2: "markEnglishWords (asc ''adjektiv'') [] []
      = (asc ''adjektiv'', [])"
    by (simp add: eval_defs isWordChar_def containsEnglishLetter_def Let_def)
  have g_dj: "guardPatterns (asc ''dj'') exceptionPatterns_dj (asc ''adjektiv'')
      = asc ''ad'' @ [0x200C] @ asc ''jektiv''"
    by (simp add: guardPatterns_def exceptionPatterns_dj_def guardDigraph_def eval_defs
        canonicalize_table)
  have g_dzh: "guardPatterns (asc ''d'' @ [0x17E]) exceptionPatterns_dzh (asc ''ad'' @ [0x200C] @ asc ''jektiv'')
      = asc ''ad'' @ [0x200C] @ asc ''jektiv''"
    by (rule guardPatterns_dzh_absent) (simp add: asc_def sameChar_def canonicalize_table)
  have g_nj: "guardPatterns (asc ''nj'') exceptionPatterns_nj (asc ''ad'' @ [0x200C] @ asc ''jektiv'')
      = asc ''ad'' @ [0x200C] @ asc ''jektiv''"
    by (rule guardPatterns_nj_absent) (simp add: asc_def sameChar_def canonicalize_table)
  have s3: "handleDigraphExceptions (asc ''adjektiv'')
      = asc ''ad'' @ [0x200C] @ asc ''jektiv''"
    by (simp only: handleDigraphExceptions_groups g_dj g_dzh g_nj)
  have s4: "mergeDigraphs (asc ''ad'' @ [0x200C] @ asc ''jektiv'')
      = asc ''ad'' @ [0x200C] @ asc ''jektiv''"
    by (simp add: mergeDigraphs_def digraphRegexps_def eval_defs)
  have s5: "scanText (asc ''ad'' @ [0x200C] @ asc ''jektiv'') []
      = Some ([0x430, 0x434, 0x458, 0x435, 0x43A, 0x442, 0x438, 0x432])"
    by (simp add: eval_defs mapped_def latin2CyrillicMap_table)
  have s6: "replaceGlobal False ZWNJ (\<lambda>_. [])
       (restore (asc ''WORD_'') 0 []
          (restore (asc ''MARKER_'') 0 []
             ([0x430, 0x434, 0x458, 0x435, 0x43A, 0x442, 0x438, 0x432])))
      = [0x430, 0x434, 0x458, 0x435, 0x43A, 0x442, 0x438, 0x432]"
    by (simp add: eval_defs replaceFirst_def indexOf_def)
  show ?thesis
    using ne s1 s2 s3 s4 s5 s6 by (rule toCyrillic_default_result)
qed

lemma ex_nadziveti:
  "toCyrillic (asc ''nad'' @ [0x17E] @ asc ''iveti'') None
     = Some (Inr ([0x43D, 0x430, 0x434, 0x436, 0x438, 0x432, 0x435, 0x442, 0x438]))"
proof -
  have ne: "asc ''nad'' @ [0x17E] @ asc ''iveti'' \<noteq> []" by (simp add: asc_def)
  have s1: "markSkipMarkers False (asc ''<skip>'') (asc ''</skip>'') (asc ''nad'' @ [0x17E] @ asc ''iveti'') [] []
      = (asc ''nad'' @ [0x17E] @ asc ''iveti'', [])"
    by (simp add: eval_defs matchMarker_def isLineTerminator_def canonicalize_table)
  have s2: "markEnglishWords (asc ''nad'' @ [0x17E] @ asc ''iveti'') [] []
      = (asc ''nad'' @ [0x17E] @ asc ''iveti'', [])"
    by (simp add: eval_defs isWordChar_def containsEnglishLetter_def Let_def)
  have g_dj: "guardPatterns (asc ''dj'') exceptionPatterns_dj (asc ''nad'' @ [0x17E] @ asc ''iveti'')
      = asc ''nad'' @ [0x17E] @ asc ''iveti''"
    by (rule guardPatterns_dj_absent) (simp add: asc_def sameChar_def canonicalize_table)
  have g_dzh: "guardPatterns (asc ''d'' @ [0x17E]) exceptionPatterns_dzh (asc ''nad'' @ [0x17E] @ asc ''iveti'')
      = asc ''nad'' @ [0x200C, 0x17E] @ asc ''iveti''"
    by (simp add: guardPatterns_def exceptionPatterns_dzh_def guardDigraph_def eval_defs
        canonicalize_table)
  have g_nj: "guardPatterns (asc ''nj'') exceptionPatterns_nj (asc ''nad'' @ [0x200C, 0x17E] @ asc ''iveti'')
      = asc ''nad'' @ [0x200C, 0x17E] @ asc ''iveti''"
    by (rule guardPatterns_nj_absent) (simp add: asc_def sameChar_def canonicalize_table)
  have s3: "handleDigraphExceptions (asc ''nad'' @ [0x17E] @ asc ''iveti'')
      = asc ''nad'' @ [0x200C, 0x17E] @ asc ''iveti''"
    by (simp only: handleDigraphExceptions_groups g_dj g_dzh g_nj)
  have s4: "mergeDigraphs (asc ''nad'' @ [0x200C, 0x17E] @ asc ''iveti'')
      = asc ''nad'' @ [0x200C, 0x17E] @ asc ''iveti''"
    by (simp add: mergeDigraphs_def digraphRegexps_def eval_defs)
  have s5: "scanText (asc ''nad'' @ [0x200C, 0x17E] @ asc ''iveti'') []
      = Some ([0x43D, 0x430, 0x434, 0x436, 0x438, 0x432, 0x435, 0x442, 0x438])"
    by (simp add: eval_defs mapped_def latin2CyrillicMap_table)
  have s6: "replaceGlobal False ZWNJ (\<lambda>_. [])
       (restore (asc ''WORD_'') 0 []
          (restore (asc ''MARKER_'') 0 []
             ([0x43D, 0x430, 0x434, 0x436, 0x438, 0x432, 0x435, 0x442, 0x438])))
      = [0x43D, 0x430, 0x434, 0x436, 0x438, 0x432, 0x435, 0x442, 0x438]"
    by (simp add: eval_defs replaceFirst_def indexOf_def)
  show ?thesis
    using ne s1 s2 s3 s4 s5 s6 by (rule toCyrillic_default_result)
qed

lemma ex_quick:
  "toCyrillic (asc ''JavaScript je quick!'') None
     = Some (Inr ([0x408, 0x430, 0x432, 0x430, 0x421, 0x446, 0x440, 0x438, 0x43F, 0x442] @ asc '' '' @ [0x458, 0x435] @ asc '' quick!''))"
proof -
  have ne: "asc ''JavaScript je quick!'' \<noteq> []" by (simp add: asc_def)
  have s1: "markSkipMarkers False (asc ''<skip>'') (asc ''</skip>'') (asc ''JavaScript je quick!'') [] []
      = (asc ''JavaScript je quick!'', [])"
    by (simp add: eval_defs matchMarker_def isLineTerminator_def canonicalize_table)
  have s2: "markEnglishWords (asc ''JavaScript je quick!'') [] []
      = (asc ''JavaScript je '' @ [0xE000] @ asc ''__SKIP__WORD_0__!'', [asc ''quick''])"
    by (simp add: eval_defs isWordChar_def containsEnglishLetter_def Let_def)
  have g_dj: "guardPatterns (asc ''dj'') exceptionPatterns_dj (asc ''JavaScript je '' @ [0xE000] @ asc ''__SKIP__WORD_0__!'')
      = asc ''JavaScript je '' @ [0xE000] @ asc ''__SKIP__WORD_0__!''"
    by (rule guardPatterns_dj_absent) (simp add: asc_def sameChar_def canonicalize_table)
  have g_dzh: "guardPatterns (asc ''d'' @ [0x17E]) exceptionPatterns_dzh (asc ''JavaScript je '' @ [0xE000] @ asc ''__SKIP__WORD_0__!'')
      = asc ''JavaScript je '' @ [0xE000] @ asc ''__SKIP__WORD_0__!''"
    by (rule guardPatterns_dzh_absent) (simp add: asc_def sameChar_def canonicalize_table)
  have g_nj: "guardPatterns (asc ''nj'') exceptionPatterns_nj (asc ''JavaScript je '' @ [0xE000] @ asc ''__SKIP__WORD_0__!'')
      = asc ''JavaScript je '' @ [0xE000] @ asc ''__SKIP__WORD_0__!''"
    by (rule guardPatterns_nj_absent) (simp add: asc_def sameChar_def canonicalize_table)
  have s3: "handleDigraphExceptions (asc ''JavaScript je '' @ [0xE000] @ asc ''__SKIP__WORD_0__!'')
      = asc ''JavaScript je '' @ [0xE000] @ asc ''__SKIP__WORD_0__!''"
    by (simp only: handleDigraphExceptions_groups g_dj g_dzh g_nj)
  have s4: "mergeDigraphs (asc ''JavaScript je '' @ [0xE000] @ asc ''__SKIP__WORD_0__!'')
      = asc ''JavaScript je '' @ [0xE000] @ asc ''__SKIP__WORD_0__!''"
    by (simp add: mergeDigraphs_def digraphRegexps_def eval_defs)
  have s5: "scanText (asc ''JavaScript je '' @ [0xE000] @ asc ''__SKIP__WORD_0__!'') []
      = Some ([0x408, 0x430, 0x432, 0x430, 0x421, 0x446, 0x440, 0x438, 0x43F, 0x442] @ asc '' '' @ [0x458, 0x435] @ asc '' '' @ [0xE000] @ asc ''__SKIP__WORD_0__!'')"
    by (simp add: eval_defs mapped_def latin2CyrillicMap_table)
  have s6: "replaceGlobal False ZWNJ (\<lambda>_. [])
       (restore (asc ''WORD_'') 0 [asc ''quick'']
          (restore (asc ''MARKER_'') 0 []
             ([0x408, 0x430, 0x432, 0x430, 0x421, 0x446, 0x440, 0x438, 0x43F, 0x442] @ asc '' '' @ [0x458, 0x435] @ asc '' '' @ [0xE000] @ asc ''__SKIP__WORD_0__!'')))
      = [0x408, 0x430, 0x432, 0x430, 0x421, 0x446, 0x440, 0x438, 0x43F, 0x442] @ asc '' '' @ [0x458, 0x435] @ asc '' quick!''"
    by (simp add: eval_defs replaceFirst_def indexOf_def)
  show ?thesis
    using ne s1 s2 s3 s4 s5 s6 by (rule toCyrillic_default_result)
qed

lemma ex_prefix_quick:
  "toCyrillic ([0xE000] @ asc ''__SKIP__ quick'') None
     = Some (Inr ([0xE000] @ asc ''__SKIP__ '' @ [0xE000] @ asc ''__'' @ [0x421, 0x41A, 0x418, 0x41F] @ asc ''__W'' @ [0x41E, 0x420, 0x414] @ asc ''_0__''))"
proof -
  have ne: "[0xE000] @ asc ''__SKIP__ quick'' \<noteq> []" by (simp add: asc_def)
  have s1: "markSkipMarkers False (asc ''<skip>'') (asc ''</skip>'') ([0xE000] @ asc ''__SKIP__ quick'') [] []
      = ([0xE000] @ asc ''__SKIP__ quick'', [])"
    by (simp add: eval_defs matchMarker_def isLineTerminator_def canonicalize_table)
  have s2: "markEnglishWords ([0xE000] @ asc ''__SKIP__ quick'') [] []
      = ([0xE000] @ asc ''__SKIP__ '' @ [0xE000] @ asc ''__SKIP__WORD_0__'', [asc ''quick''])"
    by (simp add: eval_defs isWordChar_def containsEnglishLetter_def Let_def)
  have g_dj: "guardPatterns (asc ''dj'') exceptionPatterns_dj ([0xE000] @ asc ''__SKIP__ '' @ [0xE000] @ asc ''__SKIP__WORD_0__'')
      = [0xE000] @ asc ''__SKIP__ '' @ [0xE000] @ asc ''__SKIP__WORD_0__''"
    by (rule guardPatterns_dj_absent) (simp add: asc_def sameChar_def canonicalize_table)
  have g_dzh: "guardPatterns (asc ''d'' @ [0x17E]) exceptionPatterns_dzh ([0xE000] @ asc ''__SKIP__ '' @ [0xE000] @ asc ''__SKIP__WORD_0__'')
      = [0xE000] @ asc ''__SKIP__ '' @ [0xE000] @ asc ''__SKIP__WORD_0__''"
    by (rule guardPatterns_dzh_absent) (simp add: asc_def sameChar_def canonicalize_table)
  have g_nj: "guardPatterns (asc ''nj'') exceptionPatterns_nj ([0xE000] @ asc ''__SKIP__ '' @ [0xE000] @ asc ''__SKIP__WORD_0__'')
      = [0xE000] @ asc ''__SKIP__ '' @ [0xE000] @ asc ''__SKIP__WORD_0__''"
    by (rule guardPatterns_nj_absent) (simp add: asc_def sameChar_def canonicalize_table)
  have s3: "handleDigraphExceptions ([0xE000] @ asc ''__SKIP__ '' @ [0xE000] @ asc ''__SKIP__WORD_0__'')
      = [0xE000] @ asc ''__SKIP__ '' @ [0xE000] @ asc ''__SKIP__WORD_0__''"
    by (simp only: handleDigraphExceptions_groups g_dj g_dzh g_nj)
  have s4: "mergeDigraphs ([0xE000] @ asc ''__SKIP__ '' @ [0xE000] @ asc ''__SKIP__WORD_0__'')
      = [0xE000] @ asc ''__SKIP__ '' @ [0xE000] @ asc ''__SKIP__WORD_0__''"
    by (simp add: mergeDigraphs_def digraphRegexps_def eval_defs)
  have s5: "scanText ([0xE000] @ asc ''__SKIP__ '' @ [0xE000] @ asc ''__SKIP__WORD_0__'') []
      = Some ([0xE000] @ asc ''__SKIP__ '' @ [0xE000] @ asc ''__'' @ [0x421, 0x41A, 0x418, 0x41F] @ asc ''__W'' @ [0x41E, 0x420, 0x414] @ asc ''_0__'')"
    by (simp add: eval_defs mapped_def latin2CyrillicMap_table)
  have s6: "replaceGlobal False ZWNJ (\<lambda>_. [])
       (restore (asc ''WORD_'') 0 [asc ''quick'']
          (restore (asc ''MARKER_'') 0 []
             ([0xE000] @ asc ''__SKIP__ '' @ [0xE000] @ asc ''__'' @ [0x421, 0x41A, 0x418, 0x41F] @ asc ''__W'' @ [0x41E, 0x420, 0x414] @ asc ''_0__'')))
      = [0xE000] @ asc ''__SKIP__ '' @ [0xE000] @ asc ''__'' @ [0x421, 0x41A, 0x418, 0x41F] @ asc ''__W'' @ [0x41E, 0x420, 0x414] @ asc ''_0__''"
    by (simp add: eval_defs replaceFirst_def indexOf_def)
  show ?thesis
    using ne s1 s2 s3 s4 s5 s6 by (rule toCyrillic_default_result)
qed

lemma ex_case_sensitive:
  "toCyrillic (asc ''Test TEST test'') (Some \<lparr>skip
     = Some \<lparr>caseSensitive
     = Some True, words
     = Some [asc ''TEST''], markers
     = None\<rparr>\<rparr>)
     = Some (Inr ([0x422, 0x435, 0x441, 0x442] @ asc '' TEST '' @ [0x442, 0x435, 0x441, 0x442]))"
proof -
  have ne: "asc ''Test TEST test'' \<noteq> []" by (simp add: asc_def)
  have s1: "markSkipMarkers False (asc ''<skip>'') (asc ''</skip>'') (asc ''Test TEST test'') [] []
      = (asc ''Test TEST test'', [])"
    by (simp add: eval_defs matchMarker_def isLineTerminator_def canonicalize_table)
  have s2: "markEnglishWords (asc ''Test TEST test'') [] []
      = (asc ''Test TEST test'', [])"
    by (simp add: eval_defs isWordChar_def containsEnglishLetter_def Let_def)
  have s2w: "markSkipWords False [asc ''TEST''] (asc ''Test TEST test'', [])
      = (asc ''Test'' @ [0xE000] @ asc ''__SKIP__WORD_0__ test'', [asc '' TEST''])"
    by (simp add: eval_defs markSkipWords_def matchSkipWord_def boundaryAhead_def
        isLetterNumberUnderscore_def isWordChar_def canonicalize_table)
  have g_dj: "guardPatterns (asc ''dj'') exceptionPatterns_dj (asc ''Test'' @ [0xE000] @ asc ''__SKIP__WORD_0__ test'')
      = asc ''Test'' @ [0xE000] @ asc ''__SKIP__WORD_0__ test''"
    by (rule guardPatterns_dj_absent) (simp add: asc_def sameChar_def canonicalize_table)
  have g_dzh: "guardPatterns (asc ''d'' @ [0x17E]) exceptionPatterns_dzh (asc ''Test'' @ [0xE000] @ asc ''__SKIP__WORD_0__ test'')
      = asc ''Test'' @ [0xE000] @ asc ''__SKIP__WORD_0__ test''"
    by (rule guardPatterns_dzh_absent) (simp add: asc_def sameChar_def canonicalize_table)
  have g_nj: "guardPatterns (asc ''nj'') exceptionPatterns_nj (asc ''Test'' @ [0xE000] @ asc ''__SKIP__WORD_0__ test'')
      = asc ''Test'' @ [0xE000] @ asc ''__SKIP__WORD_0__ test''"
    by (rule guardPatterns_nj_absent) (simp add: asc_def sameChar_def canonicalize_table)
  have s3: "handleDigraphExceptions (asc ''Test'' @ [0xE000] @ asc ''__SKIP__WORD_0__ test'')
      = asc ''Test'' @ [0xE000] @ asc ''__SKIP__WORD_0__ test''"
    by (simp only: handleDigraphExceptions_groups g_dj g_dzh g_nj)
  have s4: "mergeDigraphs (asc ''Test'' @ [0xE000] @ asc ''__SKIP__WORD_0__ test'')
      = asc ''Test'' @ [0xE000] @ asc ''__SKIP__WORD_0__ test''"
    by (simp add: mergeDigraphs_def digraphRegexps_def eval_defs)
  have s5: "scanText (asc ''Test'' @ [0xE000] @ asc ''__SKIP__WORD_0__ test'') []
      = Some ([0x422, 0x435, 0x441, 0x442, 0xE000] @ asc ''__SKIP__WORD_0__ '' @ [0x442, 0x435, 0x441, 0x442])"
    by (simp add: eval_defs mapped_def latin2CyrillicMap_table)
  have s6: "replaceGlobal False ZWNJ (\<lambda>_. [])
       (restore (asc ''WORD_'') 0 [asc '' TEST'']
          (restore (asc ''MARKER_'') 0 []
             ([0x422, 0x435, 0x441, 0x442, 0xE000] @ asc ''__SKIP__WORD_0__ '' @ [0x442, 0x435, 0x441, 0x442])))
      = [0x422, 0x435, 0x441, 0x442] @ asc '' TEST '' @ [0x442, 0x435, 0x441, 0x442]"
    by (simp add: eval_defs replaceFirst_def indexOf_def)
  have nw: "[asc ''TEST''] \<noteq> []" by simp
  show ?thesis
    using ne nw s1 s2 s2w s3 s4 s5 s6 by (rule toCyrillic_words_result [where cs = True, simplified])
qed

lemma ex_case_insensitive:
  "toCyrillic (asc ''Test TEST test'') (Some \<lparr>skip
     = Some \<lparr>caseSensitive
     = Some False, words
     = Some [asc ''test''], markers
     = None\<rparr>\<rparr>)
     = Some (Inr (asc ''Test TEST test''))"
proof -
  have ne: "asc ''Test TEST test'' \<noteq> []" by (simp add: asc_def)
  have s1: "markSkipMarkers True (asc ''<skip>'') (asc ''</skip>'') (asc ''Test TEST test'') [] []
      = (asc ''Test TEST test'', [])"
    by (simp add: eval_defs matchMarker_def isLineTerminator_def canonicalize_table)
  have s2: "markEnglishWords (asc ''Test TEST test'') [] []
      = (asc ''Test TEST test'', [])"
    by (simp add: eval_defs isWordChar_def containsEnglishLetter_def Let_def)
  have s2w: "markSkipWords True [asc ''test''] (asc ''Test TEST test'', [])
      = ([0xE000] @ asc ''__SKIP__WORD_0__'' @ [0xE000] @ asc ''__SKIP__WORD_1__'' @ [0xE000] @ asc ''__SKIP__WORD_2__'', [asc ''Test'', asc '' TEST'', asc '' test''])"
    by (simp add: eval_defs markSkipWords_def matchSkipWord_def boundaryAhead_def
        isLetterNumberUnderscore_def isWordChar_def canonicalize_table)
  have g_dj: "guardPatterns (asc ''dj'') exceptionPatterns_dj ([0xE000] @ asc ''__SKIP__WORD_0__'' @ [0xE000] @ asc ''__SKIP__WORD_1__'' @ [0xE000] @ asc ''__SKIP__WORD_2__'')
      = [0xE000] @ asc ''__SKIP__WORD_0__'' @ [0xE000] @ asc ''__SKIP__WORD_1__'' @ [0xE000] @ asc ''__SKIP__WORD_2__''"
    by (rule guardPatterns_dj_absent) (simp add: asc_def sameChar_def canonicalize_table)
  have g_dzh: "guardPatterns (asc ''d'' @ [0x17E]) exceptionPatterns_dzh ([0xE000] @ asc ''__SKIP__WORD_0__'' @ [0xE000] @ asc ''__SKIP__WORD_1__'' @ [0xE000] @ asc ''__SKIP__WORD_2__'')
      = [0xE000] @ asc ''__SKIP__WORD_0__'' @ [0xE000] @ asc ''__SKIP__WORD_1__'' @ [0xE000] @ asc ''__SKIP__WORD_2__''"
    by (rule guardPatterns_dzh_absent) (simp add: asc_def sameChar_def canonicalize_table)
  have g_nj: "guardPatterns (asc ''nj'') exceptionPatterns_nj ([0xE000] @ asc ''__SKIP__WORD_0__'' @ [0xE000] @ asc ''__SKIP__WORD_1__'' @ [0xE000] @ asc ''__SKIP__WORD_2__'')
      = [0xE000] @ asc ''__SKIP__WORD_0__'' @ [0xE000] @ asc ''__SKIP__WORD_1__'' @ [0xE000] @ asc ''__SKIP__WORD_2__''"
    by (rule guardPatterns_nj_absent) (simp add: asc_def sameChar_def canonicalize_table)
  have s3: "handleDigraphExceptions ([0xE000] @ asc ''__SKIP__WORD_0__'' @ [0xE000] @ asc ''__SKIP__WORD_1__'' @ [0xE000] @ asc ''__SKIP__WORD_2__'')
      = [0xE000] @ asc ''__SKIP__WORD_0__'' @ [0xE000] @ asc ''__SKIP__WORD_1__'' @ [0xE000] @ asc ''__SKIP__WORD_2__''"
    by (simp only: handleDigraphExceptions_groups g_dj g_dzh g_nj)
  have s4: "mergeDigraphs ([0xE000] @ asc ''__SKIP__WORD_0__'' @ [0xE000] @ asc ''__SKIP__WORD_1__'' @ [0xE000] @ asc ''__SKIP__WORD_2__'')
      = [0xE000] @ asc ''__SKIP__WORD_0__'' @ [0xE000] @ asc ''__SKIP__WORD_1__'' @ [0xE000] @ asc ''__SKIP__WORD_2__''"
    by (simp add: mergeDigraphs_def digraphRegexps_def eval_defs)
  have s5: "scanText ([0xE000] @ asc ''__SKIP__WORD_0__'' @ [0xE000] @ asc ''__SKIP__WORD_1__'' @ [0xE000] @ asc ''__SKIP__WORD_2__'') []
      = Some ([0xE000] @ asc ''__SKIP__WORD_0__'' @ [0xE000] @ asc ''__SKIP__WORD_1__'' @ [0xE000] @ asc ''__SKIP__WORD_2__'')"
    by (simp add: eval_defs mapped_def latin2CyrillicMap_table)
  have s6: "replaceGlobal False ZWNJ (\<lambda>_. [])
       (restore (asc ''WORD_'') 0 [asc ''Test'', asc '' TEST'', asc '' test'']
          (restore (asc ''MARKER_'') 0 []
             ([0xE000] @ asc ''__SKIP__WORD_0__'' @ [0xE000] @ asc ''__SKIP__WORD_1__'' @ [0xE000] @ asc ''__SKIP__WORD_2__'')))
      = asc ''Test TEST test''"
    by (simp add: eval_defs replaceFirst_def indexOf_def)
  have nw: "[asc ''test''] \<noteq> []" by simp
  show ?thesis
    using ne nw s1 s2 s2w s3 s4 s5 s6 by (rule toCyrillic_words_result [where cs = False, simplified])
qed

lemma ex_nj:
  "toCyrillic (asc ''nj'') None
     = Some (Inr ([0x45A]))"
proof -
  have ne: "asc ''nj'' \<noteq> []" by (simp add: asc_def)
  have s1: "markSkipMarkers False (asc ''<skip>'') (asc ''</skip>'') (asc ''nj'') [] []
      = (asc ''nj'', [])"
    by (simp add: eval_defs matchMarker_def isLineTerminator_def canonicalize_table)
  have s2: "markEnglishWords (asc ''nj'') [] []
      = (asc ''nj'', [])"
    by (simp add: eval_defs isWordChar_def containsEnglishLetter_def Let_def)
  have g_dj: "guardPatterns (asc ''dj'') exceptionPatterns_dj (asc ''nj'')
      = asc ''nj''"
    by (rule guardPatterns_dj_absent) (simp add: asc_def sameChar_def canonicalize_table)
  have g_dzh: "guardPatterns (asc ''d'' @ [0x17E]) exceptionPatterns_dzh (asc ''nj'')
      = asc ''nj''"
    by (rule guardPatterns_dzh_absent) (simp add: asc_def sameChar_def canonicalize_table)
  have g_nj: "guardPatterns (asc ''nj'') exceptionPatterns_nj (asc ''nj'')
      = asc ''nj''"
    by (simp add: guardPatterns_def exceptionPatterns_nj_def guardDigraph_def eval_defs
        canonicalize_table)
  have s3: "handleDigraphExceptions (asc ''nj'')
      = asc ''nj''"
    by (simp only: handleDigraphExceptions_groups g_dj g_dzh g_nj)
  have s4: "mergeDigraphs (asc ''nj'')
      = [0x45A]"
    by (simp add: mergeDigraphs_def digraphRegexps_def eval_defs)
  have s5: "scanText ([0x45A]) []
      = Some ([0x45A])"
    by (simp add: eval_defs mapped_def latin2CyrillicMap_table)
  have s6: "replaceGlobal False ZWNJ (\<lambda>_. [])
       (restore (asc ''WORD_'') 0 []
          (restore (asc ''MARKER_'') 0 []
             ([0x45A])))
      = [0x45A]"
    by (simp add: eval_defs replaceFirst_def indexOf_def)
  show ?thesis
    using ne s1 s2 s3 s4 s5 s6 by (rule toCyrillic_default_result)
qed

lemma ex_aNjon:
  "toCyrillic (asc ''aNjon'') None
     = Some (Inr ([0x430, 0x40A, 0x43E, 0x43D]))"
proof -
  have ne: "asc ''aNjon'' \<noteq> []" by (simp add: asc_def)
  have s1: "markSkipMarkers False (asc ''<skip>'') (asc ''</skip>'') (asc ''aNjon'') [] []
      = (asc ''aNjon'', [])"
    by (simp add: eval_defs matchMarker_def isLineTerminator_def canonicalize_table)
  have s2: "markEnglishWords (asc ''aNjon'') [] []
      = (asc ''aNjon'', [])"
    by (simp add: eval_defs isWordChar_def containsEnglishLetter_def Let_def)
  have g_dj: "guardPatterns (asc ''dj'') exceptionPatterns_dj (asc ''aNjon'')
      = asc ''aNjon''"
    by (rule guardPatterns_dj_absent) (simp add: asc_def sameChar_def canonicalize_table)
  have g_dzh: "guardPatterns (asc ''d'' @ [0x17E]) exceptionPatterns_dzh (asc ''aNjon'')
      = asc ''aNjon''"
    by (rule guardPatterns_dzh_absent) (simp add: asc_def sameChar_def canonicalize_table)
  have g_nj: "guardPatterns (asc ''nj'') exceptionPatterns_nj (asc ''aNjon'')
      = asc ''aNjon''"
    by (simp add: guardPatterns_def exceptionPatterns_nj_def guardDigraph_def eval_defs
        canonicalize_table)
  have s3: "handleDigraphExceptions (asc ''aNjon'')
      = asc ''aNjon''"
    by (simp only: handleDigraphExceptions_groups g_dj g_dzh g_nj)
  have s4: "mergeDigraphs (asc ''aNjon'')
      = asc ''a'' @ [0x40A] @ asc ''on''"
    by (simp add: mergeDigraphs_def digraphRegexps_def eval_defs)
  have s5: "scanText (asc ''a'' @ [0x40A] @ asc ''on'') []
      = Some ([0x430, 0x40A, 0x43E, 0x43D])"
    by (simp add: eval_defs mapped_def latin2CyrillicMap_table)
  have s6: "replaceGlobal False ZWNJ (\<lambda>_. [])
       (restore (asc ''WORD_'') 0 []
          (restore (asc ''MARKER_'') 0 []
             ([0x430, 0x40A, 0x43E, 0x43D])))
      = [0x430, 0x40A, 0x43E, 0x43D]"
    by (simp add: eval_defs replaceFirst_def indexOf_def)
  show ?thesis
    using ne s1 s2 s3 s4 s5 s6 by (rule toCyrillic_default_result)
qed


lemma codePoints_concat: "concat (codePoints text) = text"
  by (induction "text" rule: codePoints.induct) simp_all

lemma isCyrillic_eq:
  "isCyrillic text =
     (length (filter (\<lambda>char. latin2CyrillicMap char \<noteq> None) (codePoints text))
      < length (filter (\<lambda>char. cyrillic2LatinMap char \<noteq> None) (codePoints text)))"
  by (cases "text = []") (simp_all add: isCyrillic_def countCyrillicAndLatinLetters_eq)

lemma isLatin_eq:
  "isLatin text =
     (length (filter (\<lambda>char. cyrillic2LatinMap char \<noteq> None) (codePoints text))
      < length (filter (\<lambda>char. latin2CyrillicMap char \<noteq> None) (codePoints text)))"
  by (cases "text = []") (simp_all add: isLatin_def countCyrillicAndLatinLetters_eq)

lemmas table_defs = cyrillic2LatinMap_def cyrillic2LatinMap_entries_def
  latin2CyrillicMap_def latin2CyrillicMap_entries_def asc_def
  isHighSurrogate_def isLowSurrogate_def

text \<open>
  Claim C5. \<open>toLatin\<close> is a total function without an error result: for every text it
  is the concatenation, character by character (code point by code point, and the
  characters make up the text), of the value of the Cyrillic-to-Latin map where the
  character is a key and of the character itself where it is not; the empty text gives
  the empty text.
\<close>

theorem toLatin_maps_each_character:
  "toLatin text =
     concat (map (\<lambda>char. case cyrillic2LatinMap char of Some v \<Rightarrow> v | None \<Rightarrow> char)
               (codePoints text))
   \<and> concat (codePoints text) = text
   \<and> toLatin [] = []"
proof -
  have "mapped cyrillic2LatinMap =
        (\<lambda>char. case cyrillic2LatinMap char of Some v \<Rightarrow> v | None \<Rightarrow> char)"
    by (rule ext) (simp add: mapped_def)
  then show ?thesis
    by (simp add: toLatin_concat codePoints_concat)
qed

text \<open>
  Claim C7. \<open>isCyrillic\<close> holds exactly when the characters that are keys of the
  Cyrillic-to-Latin map outnumber the characters that are keys of the Latin-to-Cyrillic
  map, and \<open>isLatin\<close> is the mirror comparison, so a tie makes both false: both are
  false on the text of five Cyrillic and five Latin letters, and \<open>isCyrillic\<close> is false
  on \<open>123!@#\<close>.
\<close>

theorem script_majority:
  "isCyrillic text =
     (length (filter (\<lambda>char. latin2CyrillicMap char \<noteq> None) (codePoints text))
      < length (filter (\<lambda>char. cyrillic2LatinMap char \<noteq> None) (codePoints text)))
   \<and> isLatin text =
     (length (filter (\<lambda>char. cyrillic2LatinMap char \<noteq> None) (codePoints text))
      < length (filter (\<lambda>char. latin2CyrillicMap char \<noteq> None) (codePoints text)))
   \<and> isCyrillic ([0x414, 0x43E, 0x431, 0x430, 0x440] @ asc '' Dobar'') = False
   \<and> isLatin ([0x414, 0x43E, 0x431, 0x430, 0x440] @ asc '' Dobar'') = False
   \<and> isCyrillic (asc ''123!@#'') = False"
proof -
  have "isCyrillic ([0x414, 0x43E, 0x431, 0x430, 0x440] @ asc '' Dobar'') = False"
    by (simp add: isCyrillic_eq table_defs)
  moreover have "isLatin ([0x414, 0x43E, 0x431, 0x430, 0x440] @ asc '' Dobar'') = False"
    by (simp add: isLatin_eq table_defs)
  moreover have "isCyrillic (asc ''123!@#'') = False"
    by (simp add: isCyrillic_eq table_defs)
  ultimately show ?thesis
    using isCyrillic_eq [of "text"] isLatin_eq [of "text"] by blast
qed

text \<open>
  Claim C10. \<open>isCyrillic\<close> and \<open>isLatin\<close> never hold of the same text.
\<close>

theorem isCyrillic_isLatin_exclusive: "\<not> (isCyrillic text \<and> isLatin text)"
  by (simp add: isCyrillic_eq isLatin_eq)

lemma toCyrillic_identical:
  assumes "text \<noteq> []" and "markers sk = Some [m, m]"
  shows "toCyrillic text (Some \<lparr>skip = Some sk\<rparr>) = Some (Inl IdenticalMarkers)"
  using assms by (simp add: toCyrillic_def orElse_def Let_def)

lemma toCyrillic_distinct:
  assumes "markers sk = Some [a, b]" and "a \<noteq> b"
  shows "toCyrillic text (Some \<lparr>skip = Some sk\<rparr>) \<noteq> Some (Inl IdenticalMarkers)"
  using assms
  by (simp add: toCyrillic_def orElse_def Let_def split: prod.splits option.splits)

text \<open>
  Claim C3. For a text that is not empty and options whose markers are a pair of one and
  the same string, \<open>toCyrillic\<close> fails with the identical-markers error, and no text is
  produced; for options whose markers are a pair of two different strings it never fails
  with that error.
\<close>

theorem identical_markers_error:
  "(text \<noteq> [] \<and> markers sk = Some [m, m]
      \<longrightarrow> toCyrillic text (Some \<lparr>skip = Some sk\<rparr>) = Some (Inl IdenticalMarkers))
   \<and> (markers sk' = Some [a, b] \<and> a \<noteq> b
      \<longrightarrow> toCyrillic text' (Some \<lparr>skip = Some sk'\<rparr>) \<noteq> Some (Inl IdenticalMarkers))"
  using toCyrillic_identical toCyrillic_distinct by blast

theorem identical_markers_error_witness:
  "toCyrillic (asc ''test'')
     (Some \<lparr>skip = Some \<lparr>caseSensitive = None, words = None,
                           markers = Some [asc ''<tag>'', asc ''<tag>'']\<rparr>\<rparr>)
     = Some (Inl IdenticalMarkers)
   \<and> toCyrillic (asc ''test'')
     (Some \<lparr>skip = Some \<lparr>caseSensitive = None, words = None,
                           markers = Some [asc ''<tag>'', asc ''</tag>'']\<rparr>\<rparr>)
     \<noteq> Some (Inl IdenticalMarkers)"
proof -
  have ne: "asc ''test'' \<noteq> []" by (simp add: asc_def)
  have d: "asc ''<tag>'' \<noteq> asc ''</tag>''" by (simp add: asc_def)
  show ?thesis
    using identical_markers_error
      [of "asc ''test''"
          "\<lparr>caseSensitive = None, words = None, markers = Some [asc ''<tag>'', asc ''<tag>'']\<rparr>"
          "asc ''<tag>''"
          "\<lparr>caseSensitive = None, words = None, markers = Some [asc ''<tag>'', asc ''</tag>'']\<rparr>"
          "asc ''<tag>''" "asc ''</tag>''" "asc ''test''"]
      ne d
    by simp
qed

section \<open>The claims about \<open>toCyrillic\<close> on given texts\<close>

text \<open>
  Claim C2. A skip region comes back with its content, character for character. The
  source restores a region with \<open>result.replace(placeholder, content)\<close>, and a string
  given as replacement is expanded: the region \<open><skip>$$</skip>\<close> comes back as a single
  dollar sign, not as its content \<open>$$\<close>. The text of the specification,
  \<open>ovo je <skip>some code</skip> za primer\<close>, has no dollar sign and comes out as claimed.
\<close>

theorem skip_region_restored_through_replace:
  "toCyrillic (asc ''<skip>$$</skip>'') None = Some (Inr (asc ''$''))
   \<and> toCyrillic (asc ''ovo je <skip>some code</skip> za primer'') None
       = Some (Inr ([0x43E, 0x432, 0x43E] @ asc '' '' @ [0x458, 0x435] @ asc '' some code ''
                    @ [0x437, 0x430] @ asc '' '' @ [0x43F, 0x440, 0x438, 0x43C, 0x435, 0x440]))"
  using ex_dollar ex_skip_region by simp

text \<open>
  Claim C4. \<open>toCyrillic\<close> returns on every text. On the text that is the reserved
  prefix alone, a private-use character and \<open>__SKIP__\<close>, the loop finds the prefix at
  \<open>i\<close>, finds no \<open>__\<close> behind it, and changes neither \<open>i\<close> nor the result: the run
  never ends, which is the value \<open>None\<close>.
\<close>

theorem reserved_prefix_never_returns:
  "toCyrillic ([0xE000] @ asc ''__SKIP__'') None = None"
  by (rule ex_prefix_only)

text \<open>
  Claim C6. In a word that an exception pattern matches, the digraph is not merged:
  \<open>adjektiv\<close> and \<open>nadziveti\<close> (with z caron) keep their two letters. The patterns match
  without regard to case, but the separator is put into the lower-case digraph only: in
  \<open>aNjon\<close>, which the pattern \<open>anjon\<close> matches, \<open>Nj\<close> is merged into one letter.
\<close>

theorem exception_digraph_kept_apart:
  "toCyrillic (asc ''adjektiv'') None
     = Some (Inr [0x430, 0x434, 0x458, 0x435, 0x43A, 0x442, 0x438, 0x432])
   \<and> toCyrillic (asc ''nad'' @ [0x17E] @ asc ''iveti'') None
     = Some (Inr [0x43D, 0x430, 0x434, 0x436, 0x438, 0x432, 0x435, 0x442, 0x438])
   \<and> matchLiteral True (asc ''anjon'') (asc ''aNjon'')
   \<and> toCyrillic (asc ''aNjon'') None = Some (Inr [0x430, 0x40A, 0x43E, 0x43D])"
proof -
  have "matchLiteral True (asc ''anjon'') (asc ''aNjon'')"
    by (simp add: asc_def sameChar_def canonicalize_table)
  then show ?thesis
    using ex_adjektiv ex_nadziveti ex_aNjon by simp
qed

text \<open>
  Claim C9. With the caller word \<open>TEST\<close> and case-sensitive matching only the middle word
  of \<open>Test TEST test\<close> is skipped; with the caller word \<open>test\<close> and matching without
  regard to case all three words are skipped and the text comes out unchanged.
\<close>

theorem caller_words_case_sensitivity:
  "toCyrillic (asc ''Test TEST test'')
     (Some \<lparr>skip = Some \<lparr>caseSensitive = Some True, words = Some [asc ''TEST''],
                           markers = None\<rparr>\<rparr>)
     = Some (Inr ([0x422, 0x435, 0x441, 0x442] @ asc '' TEST '' @ [0x442, 0x435, 0x441, 0x442]))
   \<and> toCyrillic (asc ''Test TEST test'')
     (Some \<lparr>skip = Some \<lparr>caseSensitive = Some False, words = Some [asc ''test''],
                           markers = None\<rparr>\<rparr>)
     = Some (Inr (asc ''Test TEST test''))"
  using ex_case_sensitive ex_case_insensitive by simp


end
